theory Spec2Isabelle
  imports Complex_Main "HOL-Library.Word" "HOL-Library.Sublist"
begin

text \<open>
  A model of the trade event finder: the post-processing of the reply of the external
  model in \<open>searchTradeEvents\<close> (Response Splitter and Event Extractor), the search prompt,
  the configuration of the venue lookup, the name of the report file and the handlers of
  the session state. Calls of the external service are parameters: a handler or a
  function takes what the call settled with. The built-ins of the host language the
  program relies on (\<open>split\<close>, \<open>trim\<close>, \<open>match\<close>, \<open>JSON.parse\<close>) are modelled first.
\<close>

section \<open>Strings of the host language\<close>

text \<open>
  A string of the source language is a sequence of UTF-16 code units: \<open>length\<close>,
  \<open>substring\<close>, \<open>split\<close>, \<open>trim\<close> and the regular expressions without the
  \<open>u\<close> flag all count and compare code units. A literal of the source is written
  \<open>str ''...''\<close>.
\<close>

type_synonym unit16 = "16 word"
type_synonym jsstring = "unit16 list"

definition cu :: "char \<Rightarrow> unit16" where
  "cu c = of_char c"

definition str :: "string \<Rightarrow> jsstring" where
  "str s = map cu s"

text \<open>
  The white space of \<open>String.prototype.trim\<close> and of the class \<open>\s\<close>: TAB, LF, VT, FF, CR,
  SP, NBSP, the space separators U+1680, U+2000 to U+200A, U+202F, U+205F, U+3000, the
  line and paragraph separators U+2028 and U+2029, and the byte order mark U+FEFF.
\<close>

definition isWhiteSpace :: "unit16 \<Rightarrow> bool" where
  "isWhiteSpace c \<longleftrightarrow>
     c = 0x9 \<or> c = 0xA \<or> c = 0xB \<or> c = 0xC \<or> c = 0xD \<or> c = 0x20 \<or> c = 0xA0 \<or>
     c = 0x1680 \<or> (0x2000 \<le> c \<and> c \<le> 0x200A) \<or> c = 0x2028 \<or> c = 0x2029 \<or>
     c = 0x202F \<or> c = 0x205F \<or> c = 0x3000 \<or> c = 0xFEFF"

text \<open>\<open>s.trim()\<close>: the string without its leading and trailing white space.\<close>

definition trim :: "jsstring \<Rightarrow> jsstring" where
  "trim s = rev (dropWhile isWhiteSpace (rev (dropWhile isWhiteSpace s)))"

text \<open>
  \<open>s.split(sep)\<close> for a string separator and no limit. The scan goes from left to right;
  \<open>piece\<close> is the text since the end of the last separator found. Where the separator
  stands, the piece is closed and the scan resumes behind the separator, so occurrences
  found never overlap. An empty separator cuts the string into its code units.
\<close>

fun splitScan :: "'a list \<Rightarrow> 'a list \<Rightarrow> 'a list \<Rightarrow> 'a list list" where
  "splitScan sep piece [] = [piece]"
| "splitScan sep piece (x # xs) =
     (if sep \<noteq> [] \<and> prefix sep (x # xs)
      then piece # splitScan sep [] (drop (length sep - 1) xs)
      else splitScan sep (piece @ [x]) xs)"

definition split :: "'a list \<Rightarrow> 'a list \<Rightarrow> 'a list list" where
  "split sep s = (if sep = [] then map (\<lambda>c. [c]) s else splitScan sep [] s)"

text \<open>
  An error of the host language, as a value. \<open>TypeError\<close> is what a method call on
  \<open>undefined\<close> raises, \<open>SyntaxError\<close> what \<open>JSON.parse\<close> raises, \<open>CallFailed\<close> stands
  for whatever a call of the external service rejects with.
\<close>

datatype error = TypeError | SyntaxError | CallFailed

section \<open>Response Splitter\<close>

text \<open>
  Lines 67 to 69 of \<open>searchTradeEvents\<close>:
  \<^verbatim>\<open>
    const parts = fullText.split("___JSON_START___");
    const displayText = parts[0].trim();
    const jsonPart = parts.length > 1 ? parts[1].trim() : "";
  \<close>
  \<open>parts[0]\<close> of an empty array is \<open>undefined\<close>, and \<open>undefined.trim()\<close> raises.
\<close>

definition delimiter :: jsstring where
  "delimiter = str ''___JSON_START___''"

definition splitResponse :: "jsstring \<Rightarrow> error + (jsstring \<times> jsstring)" where
  "splitResponse fullText =
     (let parts = split delimiter fullText in
      case parts of
        [] \<Rightarrow> Inl TypeError
      | p0 # rest \<Rightarrow>
          Inr (trim p0, if length parts > 1 then trim (parts ! 1) else []))"

text \<open>The index of the first occurrence of \<open>sep\<close> in \<open>s\<close>, as \<open>s.indexOf(sep)\<close> finds it.\<close>

fun indexOf :: "'a list \<Rightarrow> 'a list \<Rightarrow> nat option" where
  "indexOf sep [] = (if sep = [] then Some 0 else None)"
| "indexOf sep (x # xs) =
     (if prefix sep (x # xs) then Some 0 else map_option Suc (indexOf sep xs))"

section \<open>Regular expressions\<close>

text \<open>
  The two patterns of the extractor are sequences of single code units, of greedy and
  lazy stars over a class of code units, and of one capturing group. \<open>rx\<close> is the
  backtracking matcher of the host language on such sequences: a greedy star first takes
  the next code unit and gives it back when the rest fails; a lazy star first tries the
  rest. \<open>k\<close> counts the code units consumed since the start of the attempt, and the pair
  holds where the group opened and closed.
\<close>

datatype atom =
  Chr unit16
| Star "unit16 \<Rightarrow> bool"
| Lazy "unit16 \<Rightarrow> bool"
| GroupOpen
| GroupClose

type_synonym captures = "nat option \<times> nat option"

fun rx :: "atom list \<Rightarrow> jsstring \<Rightarrow> nat \<Rightarrow> captures \<Rightarrow> (nat \<times> captures) option" where
  "rx [] s k caps = Some (k, caps)"
| "rx (Chr c # as) [] k caps = None"
| "rx (Chr c # as) (x # xs) k caps = (if x = c then rx as xs (Suc k) caps else None)"
| "rx (Star p # as) [] k caps = rx as [] k caps"
| "rx (Star p # as) (x # xs) k caps =
     (if p x
      then (case rx (Star p # as) xs (Suc k) caps of
              Some r \<Rightarrow> Some r
            | None \<Rightarrow> rx as (x # xs) k caps)
      else rx as (x # xs) k caps)"
| "rx (Lazy p # as) [] k caps = rx as [] k caps"
| "rx (Lazy p # as) (x # xs) k caps =
     (case rx as (x # xs) k caps of
        Some r \<Rightarrow> Some r
      | None \<Rightarrow> if p x then rx (Lazy p # as) xs (Suc k) caps else None)"
| "rx (GroupOpen # as) s k caps = rx as s k (Some k, snd caps)"
| "rx (GroupClose # as) s k caps = rx as s k (fst caps, Some k)"

text \<open>
  The result of a successful match, as \<open>s.match(re)\<close> returns it for a pattern without the
  \<open>g\<close> flag: the matched text (index 0) and the text of group 1 (index 1; \<open>None\<close> where
  the pattern has no group, which reads as \<open>undefined\<close>).
\<close>

definition matchArray :: "jsstring \<Rightarrow> nat \<times> captures \<Rightarrow> jsstring \<times> jsstring option" where
  "matchArray s r =
     (case r of (e, caps) \<Rightarrow>
        (take e s,
         case caps of
           (Some b, Some c) \<Rightarrow> Some (take (c - b) (drop b s))
         | _ \<Rightarrow> None))"

text \<open>The attempts start at index 0, then 1, and so on; the first that succeeds wins.\<close>

fun regexMatch :: "atom list \<Rightarrow> jsstring \<Rightarrow> (jsstring \<times> jsstring option) option" where
  "regexMatch re [] = map_option (matchArray []) (rx re [] 0 (None, None))"
| "regexMatch re (x # xs) =
     (case rx re (x # xs) 0 (None, None) of
        Some r \<Rightarrow> Some (matchArray (x # xs) r)
      | None \<Rightarrow> regexMatch re xs)"

definition lit :: "string \<Rightarrow> atom list" where
  "lit s = map (\<lambda>c. Chr (cu c)) s"

definition anyUnit :: "unit16 \<Rightarrow> bool" where
  "anyUnit c \<longleftrightarrow> isWhiteSpace c \<or> \<not> isWhiteSpace c"

text \<open>\<^verbatim>\<open>/\[\s*\{[\s\S]*\}\s*\]/\<close>, line 73.\<close>

definition arrayPattern :: "atom list" where
  "arrayPattern =
     lit ''['' @ [Star isWhiteSpace] @ lit ''{'' @ [Star anyUnit] @ lit ''}'' @
     [Star isWhiteSpace] @ lit '']''"

text \<open>\<^verbatim>\<open>/```json\s*([\s\S]*?)\s*```/\<close>, line 83.\<close>

definition codeBlockPattern :: "atom list" where
  \<open>codeBlockPattern =
     lit ''```json'' @ [Star isWhiteSpace] @ [GroupOpen, Lazy anyUnit, GroupClose] @
     [Star isWhiteSpace] @ lit ''```''\<close>

section \<open>JSON.parse\<close>

text \<open>
  The values \<open>JSON.parse\<close> returns. A number is kept as the text that denotes it (its
  floating-point value is not computed). An object is the list of its properties in the
  order of their creation; a key that comes twice keeps its place and takes the later
  value.
\<close>

datatype json =
  JNull
| JBool bool
| JNumber jsstring
| JString jsstring
| JArray "json list"
| JObject "(jsstring \<times> json) list"

datatype token =
  LBracket | RBracket | LBrace | RBrace | Comma | Colon
| TString jsstring | TNumber jsstring | TTrue | TFalse | TNull

definition isJsonSpace :: "unit16 \<Rightarrow> bool" where
  "isJsonSpace c \<longleftrightarrow> c = 0x20 \<or> c = 0x9 \<or> c = 0xA \<or> c = 0xD"

definition isDigit :: "unit16 \<Rightarrow> bool" where
  "isDigit c \<longleftrightarrow> 0x30 \<le> c \<and> c \<le> 0x39"

definition hexValue :: "unit16 \<Rightarrow> unit16 option" where
  "hexValue c =
     (if 0x30 \<le> c \<and> c \<le> 0x39 then Some (c - 0x30)
      else if 0x41 \<le> c \<and> c \<le> 0x46 then Some (c - 0x41 + 10)
      else if 0x61 \<le> c \<and> c \<le> 0x66 then Some (c - 0x61 + 10)
      else None)"

definition hex4 :: "unit16 \<Rightarrow> unit16 \<Rightarrow> unit16 \<Rightarrow> unit16 \<Rightarrow> unit16 option" where
  "hex4 h1 h2 h3 h4 =
     (case (hexValue h1, hexValue h2, hexValue h3, hexValue h4) of
        (Some a, Some b, Some c, Some d) \<Rightarrow> Some (((a * 16 + b) * 16 + c) * 16 + d)
      | _ \<Rightarrow> None)"

text \<open>The code unit an escape \<open>\e\<close> stands for; \<open>\u\<close> is read by \<open>hex4\<close>.\<close>

definition unescape :: "unit16 \<Rightarrow> unit16 option" where
  \<open>unescape e =
     (if e = cu CHR ''"'' then Some 0x22
      else if e = cu CHR 0x5C then Some 0x5C
      else if e = cu CHR ''/'' then Some 0x2F
      else if e = cu CHR ''b'' then Some 0x8
      else if e = cu CHR ''f'' then Some 0xC
      else if e = cu CHR ''n'' then Some 0xA
      else if e = cu CHR ''r'' then Some 0xD
      else if e = cu CHR ''t'' then Some 0x9
      else None)\<close>

text \<open>
  The text of a string behind its opening quote: the value of the string and the input
  behind the closing quote. A control character, an unknown escape or the end of the input
  inside the string is a syntax error (\<open>None\<close>).
\<close>

fun lexString :: "jsstring \<Rightarrow> (jsstring \<times> jsstring) option" where
  "lexString [] = None"
| \<open>lexString (c # cs) =
     (if c = cu CHR ''"'' then Some ([], cs)
      else if c = cu CHR 0x5C then
        (case cs of
           [] \<Rightarrow> None
         | e # r \<Rightarrow>
             if e = cu CHR ''u'' then
               (case r of
                  h1 # h2 # h3 # h4 # r' \<Rightarrow>
                    (case hex4 h1 h2 h3 h4 of
                       None \<Rightarrow> None
                     | Some u \<Rightarrow> map_option (\<lambda>(v, rest). (u # v, rest)) (lexString r'))
                | _ \<Rightarrow> None)
             else
               (case unescape e of
                  None \<Rightarrow> None
                | Some u \<Rightarrow> map_option (\<lambda>(v, rest). (u # v, rest)) (lexString r)))
      else if c < 0x20 then None
      else map_option (\<lambda>(v, rest). (c # v, rest)) (lexString cs))\<close>

text \<open>
  A number: an optional minus, an integer part without a leading zero, an optional
  fraction and an optional exponent, each with at least one digit.
\<close>

definition lexInt :: "jsstring \<Rightarrow> (jsstring \<times> jsstring) option" where
  "lexInt s =
     (case s of
        [] \<Rightarrow> None
      | c # r \<Rightarrow>
          if c = cu CHR ''0'' then Some ([c], r)
          else if isDigit c then Some (c # takeWhile isDigit r, dropWhile isDigit r)
          else None)"

definition lexFrac :: "jsstring \<Rightarrow> (jsstring \<times> jsstring) option" where
  "lexFrac s =
     (case s of
        [] \<Rightarrow> Some ([], s)
      | c # r \<Rightarrow>
          if c = cu CHR ''.'' then
            (if takeWhile isDigit r = [] then None
             else Some (c # takeWhile isDigit r, dropWhile isDigit r))
          else Some ([], s))"

definition lexExp :: "jsstring \<Rightarrow> (jsstring \<times> jsstring) option" where
  "lexExp s =
     (case s of
        [] \<Rightarrow> Some ([], s)
      | c # r \<Rightarrow>
          if c = cu CHR ''e'' \<or> c = cu CHR ''E'' then
            (let (sign, r1) =
               (case r of
                  [] \<Rightarrow> ([], r)
                | d # r' \<Rightarrow> if d = cu CHR ''+'' \<or> d = cu CHR ''-'' then ([d], r') else ([], r))
             in if takeWhile isDigit r1 = [] then None
                else Some (c # sign @ takeWhile isDigit r1, dropWhile isDigit r1))
          else Some ([], s))"

definition lexNumber :: "jsstring \<Rightarrow> (jsstring \<times> jsstring) option" where
  "lexNumber s =
     (let (sign, s1) =
        (case s of
           [] \<Rightarrow> ([], s)
         | c # r \<Rightarrow> if c = cu CHR ''-'' then ([c], r) else ([], s))
      in case lexInt s1 of
           None \<Rightarrow> None
         | Some (ip, s2) \<Rightarrow>
             (case lexFrac s2 of
                None \<Rightarrow> None
              | Some (fp, s3) \<Rightarrow>
                  (case lexExp s3 of
                     None \<Rightarrow> None
                   | Some (ep, s4) \<Rightarrow> Some (sign @ ip @ fp @ ep, s4))))"

lemma lexString_shorter:
  "lexString s = Some (v, rest) \<Longrightarrow> length rest < length s"
proof (induction s arbitrary: v rest rule: lexString.induct)
  case 1
  then show ?case by simp
next
  case (2 c cs)
  from "2.prems" "2.IH" show ?case
    by (fastforce split: if_splits list.splits option.splits)
qed

lemma lexInt_shorter: "lexInt s = Some (v, rest) \<Longrightarrow> length rest < length s"
  by (auto simp: lexInt_def split: list.splits if_splits
      intro: le_imp_less_Suc length_dropWhile_le)

lemma lexFrac_shorter: "lexFrac s = Some (v, rest) \<Longrightarrow> length rest \<le> length s"
  by (auto simp: lexFrac_def split: list.splits if_splits
      intro: le_SucI length_dropWhile_le)

lemma lexExp_shorter: "lexExp s = Some (v, rest) \<Longrightarrow> length rest \<le> length s"
  by (auto simp: lexExp_def Let_def split: list.splits if_splits
      intro: le_SucI length_dropWhile_le order_trans [OF length_dropWhile_le])

lemma lexNumber_shorter:
  "lexNumber s = Some (v, rest) \<Longrightarrow> length rest < length s"
  by (fastforce simp: lexNumber_def Let_def
      split: list.splits if_splits option.splits prod.splits
      dest!: lexInt_shorter lexFrac_shorter lexExp_shorter)

text \<open>The tokens of a text; \<open>None\<close> where some part of it is no token.\<close>

function lex :: "jsstring \<Rightarrow> token list option" where
  "lex [] = Some []"
| \<open>lex (c # cs) =
     (if isJsonSpace c then lex cs
      else if c = cu CHR ''['' then map_option (Cons LBracket) (lex cs)
      else if c = cu CHR '']'' then map_option (Cons RBracket) (lex cs)
      else if c = cu CHR ''{'' then map_option (Cons LBrace) (lex cs)
      else if c = cu CHR ''}'' then map_option (Cons RBrace) (lex cs)
      else if c = cu CHR '','' then map_option (Cons Comma) (lex cs)
      else if c = cu CHR '':'' then map_option (Cons Colon) (lex cs)
      else if c = cu CHR ''"'' then
        (case lexString cs of
           None \<Rightarrow> None
         | Some (v, rest) \<Rightarrow> map_option (Cons (TString v)) (lex rest))
      else if c = cu CHR ''-'' \<or> isDigit c then
        (case lexNumber (c # cs) of
           None \<Rightarrow> None
         | Some (n, rest) \<Rightarrow> map_option (Cons (TNumber n)) (lex rest))
      else if prefix (str ''true'') (c # cs) then map_option (Cons TTrue) (lex (drop 3 cs))
      else if prefix (str ''false'') (c # cs) then map_option (Cons TFalse) (lex (drop 4 cs))
      else if prefix (str ''null'') (c # cs) then map_option (Cons TNull) (lex (drop 3 cs))
      else None)\<close>
  by pat_completeness auto
termination
proof (relation "measure length")
  fix c cs x2 x y
  assume "lexString cs = Some x2" "(x, y) = x2"
  then show "(y, c # cs) \<in> measure length"
    using lexString_shorter [of cs x y] by simp
next
  fix c cs x2 x y
  assume "lexNumber (c # cs) = Some x2" "(x, y) = x2"
  then show "(y, c # cs) \<in> measure length"
    using lexNumber_shorter [of "c # cs" x y] by simp
qed auto

text \<open>
  The parser reads the tokens one by one. The stack holds the arrays and objects that are
  still open, the innermost first: an array with its elements so far, an object with its
  properties so far, or an object with a key that waits for its value.
\<close>

datatype ctx =
  InArray "json list"
| InObject "(jsstring \<times> json) list"
| InMember "(jsstring \<times> json) list" jsstring

datatype expect =
  Value | ValueOrClose | KeyOrClose | Key | ColonNext | CommaOrClose

datatype pstate = Expect expect "ctx list" | Done json

text \<open>\<open>setProperty k v ms\<close>: the properties \<open>ms\<close> after \<open>obj[k] = v\<close>.\<close>

fun setProperty :: "jsstring \<Rightarrow> json \<Rightarrow> (jsstring \<times> json) list \<Rightarrow> (jsstring \<times> json) list" where
  "setProperty k v [] = [(k, v)]"
| "setProperty k v (p # ps) = (if fst p = k then (k, v) # ps else p # setProperty k v ps)"

text \<open>A complete value goes to the innermost open array or object, or is the result.\<close>

fun deliver :: "json \<Rightarrow> ctx list \<Rightarrow> pstate option" where
  "deliver v [] = Some (Done v)"
| "deliver v (InArray vs # st) = Some (Expect CommaOrClose (InArray (vs @ [v]) # st))"
| "deliver v (InMember ms k # st) = Some (Expect CommaOrClose (InObject (setProperty k v ms) # st))"
| "deliver v (InObject ms # st) = None"

fun startValue :: "token \<Rightarrow> ctx list \<Rightarrow> pstate option" where
  "startValue LBracket st = Some (Expect ValueOrClose (InArray [] # st))"
| "startValue LBrace st = Some (Expect KeyOrClose (InObject [] # st))"
| "startValue (TString v) st = deliver (JString v) st"
| "startValue (TNumber n) st = deliver (JNumber n) st"
| "startValue TTrue st = deliver (JBool True) st"
| "startValue TFalse st = deliver (JBool False) st"
| "startValue TNull st = deliver JNull st"
| "startValue _ st = None"

fun closeArray :: "ctx list \<Rightarrow> pstate option" where
  "closeArray (InArray vs # st) = deliver (JArray vs) st"
| "closeArray _ = None"

fun closeObject :: "ctx list \<Rightarrow> pstate option" where
  "closeObject (InObject ms # st) = deliver (JObject ms) st"
| "closeObject _ = None"

fun startMember :: "token \<Rightarrow> ctx list \<Rightarrow> pstate option" where
  "startMember (TString k) (InObject ms # st) = Some (Expect ColonNext (InMember ms k # st))"
| "startMember _ _ = None"

fun afterComma :: "ctx list \<Rightarrow> pstate option" where
  "afterComma (InArray vs # st) = Some (Expect Value (InArray vs # st))"
| "afterComma (InObject ms # st) = Some (Expect Key (InObject ms # st))"
| "afterComma _ = None"

fun step :: "token \<Rightarrow> pstate \<Rightarrow> pstate option" where
  "step t (Done v) = None"
| "step t (Expect Value st) = startValue t st"
| "step t (Expect ValueOrClose st) = (if t = RBracket then closeArray st else startValue t st)"
| "step t (Expect KeyOrClose st) = (if t = RBrace then closeObject st else startMember t st)"
| "step t (Expect Key st) = startMember t st"
| "step t (Expect ColonNext st) = (if t = Colon then Some (Expect Value st) else None)"
| "step t (Expect CommaOrClose st) =
     (if t = Comma then afterComma st
      else if t = RBracket then closeArray st
      else if t = RBrace then closeObject st
      else None)"

fun runTokens :: "token list \<Rightarrow> pstate \<Rightarrow> pstate option" where
  "runTokens [] s = Some s"
| "runTokens (t # ts) s = (case step t s of None \<Rightarrow> None | Some s' \<Rightarrow> runTokens ts s')"

text \<open>The stack of a parse that began with an opening bracket: its outermost entry is an array.\<close>

definition arrayAtBottom :: "ctx list \<Rightarrow> bool" where
  "arrayAtBottom st \<longleftrightarrow> st \<noteq> [] \<and> (case last st of InArray vs \<Rightarrow> True | _ \<Rightarrow> False)"

fun arrayState :: "pstate \<Rightarrow> bool" where
  "arrayState (Expect m st) = arrayAtBottom st"
| "arrayState (Done v) = (case v of JArray vs \<Rightarrow> True | _ \<Rightarrow> False)"

text \<open>
  \<open>JSON.parse(text)\<close>: the value of the text, or the \<open>SyntaxError\<close> it raises when the text
  is not exactly one JSON value between optional white space.
\<close>

definition JSON_parse :: "jsstring \<Rightarrow> error + json" where
  "JSON_parse s =
     (case lex s of
        None \<Rightarrow> Inl SyntaxError
      | Some ts \<Rightarrow>
          (case runTokens ts (Expect Value []) of
             Some (Done v) \<Rightarrow> Inr v
           | _ \<Rightarrow> Inl SyntaxError))"

section \<open>Event Extractor\<close>

text \<open>
  The interface \<open>EventDetail\<close> of \<open>types.ts\<close>, as a test on a parsed value: an object whose
  \<open>eventName\<close>, \<open>date\<close>, \<open>location\<close> and \<open>type\<close> are strings and whose \<open>description\<close> and
  \<open>url\<close> are strings or absent. Other properties are not looked at.
\<close>

definition requiredString :: "(jsstring \<times> json) list \<Rightarrow> string \<Rightarrow> bool" where
  "requiredString ms k = (case map_of ms (str k) of Some (JString v) \<Rightarrow> True | _ \<Rightarrow> False)"

definition optionalString :: "(jsstring \<times> json) list \<Rightarrow> string \<Rightarrow> bool" where
  "optionalString ms k =
     (case map_of ms (str k) of None \<Rightarrow> True | Some (JString v) \<Rightarrow> True | _ \<Rightarrow> False)"

definition isEventDetail :: "json \<Rightarrow> bool" where
  "isEventDetail v =
     (case v of
        JObject ms \<Rightarrow>
          requiredString ms ''eventName'' \<and> requiredString ms ''date'' \<and>
          requiredString ms ''location'' \<and> requiredString ms ''type'' \<and>
          optionalString ms ''description'' \<and> optionalString ms ''url''
      | _ \<Rightarrow> False)"

definition eventDetailKeys :: "jsstring list" where
  "eventDetailKeys =
     map str [''eventName'', ''date'', ''location'', ''type'', ''description'', ''url'']"

definition isEventDetailArray :: "json \<Rightarrow> bool" where
  "isEventDetailArray v = (case v of JArray vs \<Rightarrow> list_all isEventDetail vs | _ \<Rightarrow> False)"

text \<open>\<open>try { body } catch (e) { handler }\<close>, for a handler that raises nothing.\<close>

definition tryCatch :: "error + 'a \<Rightarrow> (error \<Rightarrow> 'a) \<Rightarrow> error + 'a" where
  "tryCatch body handler = (case body of Inl e \<Rightarrow> Inr (handler e) | Inr v \<Rightarrow> Inr v)"

text \<open>
  Lines 82 to 86, the branch taken when the array pattern finds nothing in \<open>jsonPart\<close>:
  \<^verbatim>\<open>
    const codeBlockMatch = fullText.match(/```json\s*([\s\S]*?)\s*```/);
    if (codeBlockMatch && codeBlockMatch[1]) {
        try { structuredEvents = JSON.parse(codeBlockMatch[1]); } catch(e) {}
    }
  \<close>
  \<open>structuredEvents\<close> is the value the variable has before; an empty group is falsy.
\<close>

definition codeBlockFallback :: "json \<Rightarrow> jsstring \<Rightarrow> error + json" where
  "codeBlockFallback structuredEvents fullText =
     (case regexMatch codeBlockPattern fullText of
        None \<Rightarrow> Inr structuredEvents
      | Some codeBlockMatch \<Rightarrow>
          (case snd codeBlockMatch of
             None \<Rightarrow> Inr structuredEvents
           | Some block \<Rightarrow>
               if block \<noteq> [] then tryCatch (JSON_parse block) (\<lambda>e. structuredEvents)
               else Inr structuredEvents))"

text \<open>
  Lines 72 to 87:
  \<^verbatim>\<open>
    let structuredEvents: EventDetail[] = [];
    const jsonMatch = jsonPart.match(/\[\s*\{[\s\S]*\}\s*\]/);
    if (jsonMatch) {
      try {
        structuredEvents = JSON.parse(jsonMatch[0]);
      } catch (e) {
        console.error("Failed to parse event JSON", e);
      }
    } else { ... }
  \<close>
  The type annotation is erased when the program runs: the variable holds whatever
  \<open>JSON.parse\<close> returned.
\<close>

definition extractEvents :: "jsstring \<Rightarrow> jsstring \<Rightarrow> error + json" where
  "extractEvents jsonPart fullText =
     (let structuredEvents = JArray [] in
      case regexMatch arrayPattern jsonPart of
        Some jsonMatch \<Rightarrow> tryCatch (JSON_parse (fst jsonMatch)) (\<lambda>e. structuredEvents)
      | None \<Rightarrow> codeBlockFallback structuredEvents fullText)"

section \<open>Result Aggregator\<close>

text \<open>
  The citation chunks of \<open>types.ts\<close> and the three result envelopes. The field \<open>text\<close> of
  \<open>SearchResult\<close>, \<open>AnalysisResult\<close> and \<open>MapResult\<close> is \<open>searchText\<close>, \<open>analysisText\<close> and
  \<open>mapText\<close> here; \<open>structuredEvents\<close> holds the parsed value as it is.
\<close>

datatype ReviewSnippet = ReviewSnippet jsstring jsstring

datatype WebSource = WebSource jsstring jsstring

datatype MapsSource = MapsSource jsstring jsstring "ReviewSnippet list option list option"

datatype GroundingChunk = GroundingChunk "WebSource option" "MapsSource option"

record SearchResult =
  searchText :: jsstring
  structuredEvents :: json
  groundingChunks :: "GroundingChunk list"

record AnalysisResult =
  analysisText :: jsstring

record MapResult =
  mapText :: jsstring
  mapGroundingChunks :: "GroundingChunk list"

text \<open>
  What the external call resolves with, as far as the program reads it: \<open>response.text\<close>
  (\<open>None\<close> for \<open>undefined\<close>) and
  \<open>response.candidates?.[0]?.groundingMetadata?.groundingChunks\<close>.
\<close>

record response =
  responseText :: "jsstring option"
  responseChunks :: "GroundingChunk list option"

text \<open>\<open>response.text || "No results found."\<close>, line 65: the empty string is falsy.\<close>

definition fullTextOf :: "response \<Rightarrow> jsstring" where
  "fullTextOf r =
     (case responseText r of
        None \<Rightarrow> str ''No results found.''
      | Some t \<Rightarrow> if t = [] then str ''No results found.'' else t)"

text \<open>Lines 65 to 91 of \<open>searchTradeEvents\<close>: what is made of a response.\<close>

definition searchTradeEventsResult :: "response \<Rightarrow> error + SearchResult" where
  "searchTradeEventsResult r =
     (let fullText = fullTextOf r in
      case splitResponse fullText of
        Inl e \<Rightarrow> Inl e
      | Inr (displayText, jsonPart) \<Rightarrow>
          (case extractEvents jsonPart fullText of
             Inl e \<Rightarrow> Inl e
           | Inr events \<Rightarrow>
               Inr \<lparr> searchText = displayText,
                     structuredEvents = events,
                     groundingChunks = (case responseChunks r of None \<Rightarrow> [] | Some cs \<Rightarrow> cs) \<rparr>))"

text \<open>
  \<open>searchTradeEvents\<close> behind its call of the external service: a rejected call is logged
  and raised again (lines 92 to 95).
\<close>

definition searchTradeEvents :: "error + response \<Rightarrow> error + SearchResult" where
  "searchTradeEvents call =
     (case call of Inl e \<Rightarrow> Inl e | Inr r \<Rightarrow> searchTradeEventsResult r)"

section \<open>Query Builder\<close>

text \<open>
  Lines 19 to 21. \<open>location\<close> is optional (\<open>None\<close> for \<open>undefined\<close>); the empty string is
  falsy.
\<close>

definition nonBlank :: "jsstring option \<Rightarrow> bool" where
  "nonBlank location = (case location of None \<Rightarrow> False | Some l \<Rightarrow> l \<noteq> [] \<and> trim l \<noteq> [])"

definition filterInstruction :: "jsstring \<Rightarrow> jsstring" where
  \<open>filterInstruction l =
     str ''CRITICAL INSTRUCTION: The user is ONLY interested in events taking place in or near "'' @
     l @ str ''". FILTER OUT ALL events that are not in this location.''\<close>

definition globalInstruction :: jsstring where
  "globalInstruction = str ''Search for events globally.''"

definition locationInstruction :: "jsstring option \<Rightarrow> jsstring" where
  "locationInstruction location =
     (case location of
        None \<Rightarrow> globalInstruction
      | Some l \<Rightarrow> if l \<noteq> [] \<and> trim l \<noteq> [] then filterInstruction l else globalInstruction)"

text \<open>
  The template of lines 23 to 53, cut at its four placeholders. \<open>today\<close> is the text
  \<open>toLocaleDateString\<close> gives for the current date.
\<close>

definition promptText1 :: jsstring where
  \<open>promptText1 =
     str (''\<newline>'' @
       ''    Current Date: '')\<close>

definition promptText2 :: jsstring where
  \<open>promptText2 =
     str (''.\<newline>'' @
       ''    I am an exporter dealing in: "'')\<close>

definition promptText3 :: jsstring where
  \<open>promptText3 =
     str (''".\<newline>'' @
       ''    \<newline>'' @
       ''    1. First, identify the specific Export Promotion Council (EPC) in India relevant to this product. Start response with "Relevant EPC: [EPC Name]".\<newline>'' @
       ''    2. Then, find UPCOMING trade events, exhibitions, buyer-seller meets, and delegation meetings relevant to this product sector.\<newline>'' @
       ''    \<newline>'' @
       ''    STRICT TIME CONSTRAINT:\<newline>'' @
       ''    - ONLY list events happening AFTER '')\<close>

definition promptText4 :: jsstring where
  \<open>promptText4 =
     str (''.\<newline>'' @
       ''    - DO NOT list events that have already passed.\<newline>'' @
       ''    \<newline>'' @
       ''    '')\<close>

definition promptText5 :: jsstring where
  \<open>promptText5 =
     str (''\<newline>'' @
       ''    \<newline>'' @
       ''    Please provide the output in two distinct parts separated by the delimiter "___JSON_START___".\<newline>'' @
       ''    \<newline>'' @
       ''    PART 1: Descriptive List\<newline>'' @
       ''    Provide a structured list of at least 5 relevant upcoming events.\<newline>'' @
       ''    For each event, include:\<newline>'' @
       ''    1. Event Name\<newline>'' @
       ''    2. Date & Location (Be specific about the city/country)\<newline>'' @
       ''    3. Brief Description (Focus on why it matters for this specific product)\<newline>'' @
       ''    4. Key link/website (if available)\<newline>'' @
       ''\<newline>'' @
       ''    DO NOT include any JSON code blocks in PART 1.\<newline>'' @
       ''\<newline>'' @
       ''    ___JSON_START___\<newline>'' @
       ''\<newline>'' @
       ''    PART 2: JSON Data\<newline>'' @
       ''    Strictly output a JSON array of the found events.\<newline>'' @
       ''    Structure: [{"eventName": "...", "date": "...", "location": "...", "type": "Exhibition/Delegation/etc", "description": "...", "url": "..."}]\<newline>'' @
       ''  '')\<close>

definition searchPrompt :: "jsstring \<Rightarrow> jsstring \<Rightarrow> jsstring option \<Rightarrow> jsstring" where
  "searchPrompt today productQuery location =
     promptText1 @ today @ promptText2 @ productQuery @ promptText3 @ today @ promptText4 @
     locationInstruction location @ promptText5"

section \<open>Venue lookup\<close>

text \<open>
  A number of the host language. \<open>Finite 0\<close> stands for both zeros. A number is falsy when
  it is zero or \<open>NaN\<close>; \<open>undefined\<close> (\<open>None\<close>) is falsy.
\<close>

datatype number = Finite real | NaN | PosInfinity | NegInfinity

fun truthyNumber :: "number option \<Rightarrow> bool" where
  "truthyNumber None = False"
| "truthyNumber (Some (Finite x)) = (x \<noteq> 0)"
| "truthyNumber (Some NaN) = False"
| "truthyNumber (Some PosInfinity) = True"
| "truthyNumber (Some NegInfinity) = True"

datatype tool = GoogleSearch | GoogleMaps

record LatLng =
  latitude :: number
  longitude :: number

record RetrievalConfig =
  latLng :: LatLng

record ToolConfig =
  retrievalConfig :: RetrievalConfig

record LocationConfig =
  tools :: "tool list"
  toolConfig :: "ToolConfig option"

text \<open>
  Lines 155 to 168 of \<open>findEventLocation\<close>: the configuration of the external call.
  \<^verbatim>\<open>
    const config: any = { tools: [{ googleMaps: {} }] };
    if (userLat && userLng) {
      config.toolConfig = { retrievalConfig: { latLng: { latitude: userLat, longitude: userLng } } };
    }
  \<close>
\<close>

definition findEventLocationConfig :: "number option \<Rightarrow> number option \<Rightarrow> LocationConfig" where
  "findEventLocationConfig userLat userLng =
     (let config = \<lparr> tools = [GoogleMaps], toolConfig = None \<rparr> in
      if truthyNumber userLat \<and> truthyNumber userLng then
        (case (userLat, userLng) of
           (Some lat, Some lng) \<Rightarrow>
             config \<lparr> toolConfig :=
               Some \<lparr> retrievalConfig = \<lparr> latLng = \<lparr> latitude = lat, longitude = lng \<rparr> \<rparr> \<rparr> \<rparr>
         | _ \<Rightarrow> config)
      else config)"

section \<open>Report file name\<close>

text \<open>
  Lines 15 to 18 of the report generator:
  \<^verbatim>\<open>
    const safeName = product.replace(/[^a-z0-9]/gi, '_').substring(0, 20);
    return `Kinetick_Trade_Report_${safeName}_${new Date().getTime()}.${ext}`;
  \<close>
  Without the \<open>u\<close> flag, \<open>i\<close> lets the class match the ASCII letters of both cases and no
  other code unit.
\<close>

definition isAlphanumeric :: "unit16 \<Rightarrow> bool" where
  "isAlphanumeric c \<longleftrightarrow>
     (0x61 \<le> c \<and> c \<le> 0x7A) \<or> (0x41 \<le> c \<and> c \<le> 0x5A) \<or> (0x30 \<le> c \<and> c \<le> 0x39)"

definition replaceNonAlphanumeric :: "jsstring \<Rightarrow> jsstring" where
  "replaceNonAlphanumeric s = map (\<lambda>c. if isAlphanumeric c then c else cu CHR ''_'') s"

definition safeName :: "jsstring \<Rightarrow> jsstring" where
  "safeName product = take 20 (replaceNonAlphanumeric product)"

text \<open>
  The decimal text of an integer, as the template writes a number of less than 22
  digits. \<open>now\<close> below is \<open>new Date().getTime()\<close>, the milliseconds since the epoch.
\<close>

fun digitsOf :: "nat \<Rightarrow> jsstring" where
  "digitsOf n =
     (if n < 10 then [0x30 + of_nat n]
      else digitsOf (n div 10) @ [0x30 + of_nat (n mod 10)])"

declare digitsOf.simps [simp del]

definition numberToString :: "int \<Rightarrow> jsstring" where
  "numberToString i = (if i < 0 then cu CHR ''-'' # digitsOf (nat (- i)) else digitsOf (nat i))"

definition getFileName :: "jsstring \<Rightarrow> jsstring \<Rightarrow> int \<Rightarrow> jsstring" where
  "getFileName product ext now =
     str ''Kinetick_Trade_Report_'' @ safeName product @ str ''_'' @ numberToString now @
     str ''.'' @ ext"

section \<open>Session state\<close>

text \<open>
  The state variables of the component \<open>App\<close> and the setters its handlers call. A handler
  is the list of its setter calls in program order: those before the \<open>await\<close>, then those
  of the branch the outcome of the awaited call selects.
\<close>

datatype SearchStatus = Idle | Loading | Success | Error

record AppState =
  productQuery :: jsstring
  locationQuery :: jsstring
  searchStatus :: SearchStatus
  searchResult :: "SearchResult option"
  analysisStatus :: SearchStatus
  analysisResult :: "AnalysisResult option"
  userProfile :: jsstring
  mapStatus :: SearchStatus
  mapResult :: "MapResult option"
  selectedEventForMap :: jsstring
  darkMode :: bool
  selectedType :: jsstring
  showRawReport :: bool

datatype action =
  SetSearchStatus SearchStatus
| SetSearchResult "SearchResult option"
| SetAnalysisStatus SearchStatus
| SetAnalysisResult "AnalysisResult option"
| SetMapStatus SearchStatus
| SetMapResult "MapResult option"
| SetSelectedEventForMap jsstring
| SetSelectedType jsstring

fun applyAction :: "action \<Rightarrow> AppState \<Rightarrow> AppState" where
  "applyAction (SetSearchStatus v) s = s \<lparr> searchStatus := v \<rparr>"
| "applyAction (SetSearchResult v) s = s \<lparr> searchResult := v \<rparr>"
| "applyAction (SetAnalysisStatus v) s = s \<lparr> analysisStatus := v \<rparr>"
| "applyAction (SetAnalysisResult v) s = s \<lparr> analysisResult := v \<rparr>"
| "applyAction (SetMapStatus v) s = s \<lparr> mapStatus := v \<rparr>"
| "applyAction (SetMapResult v) s = s \<lparr> mapResult := v \<rparr>"
| "applyAction (SetSelectedEventForMap v) s = s \<lparr> selectedEventForMap := v \<rparr>"
| "applyAction (SetSelectedType v) s = s \<lparr> selectedType := v \<rparr>"

fun run :: "action list \<Rightarrow> AppState \<Rightarrow> AppState" where
  "run [] s = s"
| "run (a # as) s = run as (applyAction a s)"

text \<open>
  \<open>handleSearch\<close>, lines 116 to 132. \<open>outcome\<close> is what
  \<open>searchTradeEvents(productQuery, locationQuery)\<close> settles with.
\<close>

definition handleSearchBegin :: "action list" where
  "handleSearchBegin =
     [SetSearchStatus Loading, SetSearchResult None, SetAnalysisResult None, SetMapResult None,
      SetSelectedType (str ''All'')]"

definition handleSearchSettle :: "error + SearchResult \<Rightarrow> action list" where
  "handleSearchSettle outcome =
     (case outcome of
        Inr result \<Rightarrow> [SetSearchResult (Some result), SetSearchStatus Success]
      | Inl e \<Rightarrow> [SetSearchStatus Error])"

definition handleSearch :: "AppState \<Rightarrow> error + SearchResult \<Rightarrow> action list" where
  "handleSearch s outcome =
     (if productQuery s = [] then []
      else handleSearchBegin @ handleSearchSettle outcome)"

text \<open>
  \<open>handleAnalysis\<close>, lines 134 to 147. \<open>outcome\<close> is what
  \<open>analyzeStrategicFit(searchResult.text, userProfile)\<close> settles with.
\<close>

definition handleAnalysis :: "AppState \<Rightarrow> error + AnalysisResult \<Rightarrow> action list" where
  "handleAnalysis s outcome =
     (if searchResult s = None \<or> userProfile s = [] then []
      else SetAnalysisStatus Loading #
        (case outcome of
           Inr result \<Rightarrow> [SetAnalysisResult (Some result), SetAnalysisStatus Success]
         | Inl e \<Rightarrow> [SetAnalysisStatus Error]))"

text \<open>
  \<open>handleMapSearch\<close>, lines 169 to 197. \<open>outcome\<close> is what
  \<open>findEventLocation(eventName, lat, lng)\<close> settles with.
\<close>

definition handleMapSearch :: "jsstring \<Rightarrow> error + MapResult \<Rightarrow> action list" where
  "handleMapSearch eventName outcome =
     [SetSelectedEventForMap eventName, SetMapStatus Loading, SetMapResult None] @
     (case outcome of
        Inr result \<Rightarrow> [SetMapResult (Some result), SetMapStatus Success]
      | Inl e \<Rightarrow> [SetMapStatus Error])"

text \<open>
  A session after a successful search and a successful analysis: the input on which the
  handlers are compared below.
\<close>

definition analysedSession :: AppState where
  "analysedSession =
     \<lparr> productQuery = str ''Leather Bags'',
       locationQuery = str ''Dubai'',
       searchStatus = Success,
       searchResult = Some \<lparr> searchText = str ''Relevant EPC: CLE'',
                               structuredEvents = JArray [],
                               groundingChunks = [] \<rparr>,
       analysisStatus = Success,
       analysisResult = Some \<lparr> analysisText = str ''Attend the Dubai fair.'' \<rparr>,
       userProfile = str ''First-time exporter'',
       mapStatus = Success,
       mapResult = Some \<lparr> mapText = str ''Dubai World Trade Centre'',
                            mapGroundingChunks = [] \<rparr>,
       selectedEventForMap = str ''Dubai fair'',
       darkMode = False,
       selectedType = str ''All'',
       showRawReport = False \<rparr>"

section \<open>Properties of the Response Splitter\<close>

lemma splitScan_absent:
  "\<not> sublist sep s \<Longrightarrow> splitScan sep piece s = [piece @ s]"
proof (induction s arbitrary: piece)
  case Nil
  then show ?case by simp
next
  case (Cons x xs)
  from Cons.prems have np: "\<not> prefix sep (x # xs)" and ns: "\<not> sublist sep xs"
    by (auto simp: sublist_Cons_right)
  from np Cons.IH [OF ns] show ?case by simp
qed

lemma split_absent:
  "\<not> sublist sep s \<Longrightarrow> split sep s = [s]"
proof -
  assume a: "\<not> sublist sep s"
  then have "sep \<noteq> []" by auto
  with a show ?thesis by (simp add: split_def splitScan_absent)
qed

text \<open>
  C9. For every text that does not contain the delimiter \<open>___JSON_START___\<close>, the splitter
  raises nothing and returns the trimmed text as the narrative part and the empty string
  as the structured part.
\<close>

theorem splitResponse_no_delimiter:
  "\<not> sublist delimiter fullText \<Longrightarrow> splitResponse fullText = Inr (trim fullText, [])"
  by (simp add: splitResponse_def split_absent)

theorem splitResponse_no_delimiter_witness:
  "\<not> sublist delimiter (str '' Relevant EPC: CLE '') \<and>
   splitResponse (str '' Relevant EPC: CLE '') = Inr (str ''Relevant EPC: CLE'', [])"
proof -
  have h: "\<not> sublist delimiter (str '' Relevant EPC: CLE '')"
    by code_simp
  have t: "trim (str '' Relevant EPC: CLE '') = str ''Relevant EPC: CLE''"
    by code_simp
  from h splitResponse_no_delimiter [OF h] t show ?thesis
    by simp
qed

lemma prefix_append_short:
  "prefix xs (ys @ zs) \<Longrightarrow> length xs \<le> length ys \<Longrightarrow> prefix xs ys"
  by (auto simp: prefix_append)

lemma splitScan_first:
  "sep \<noteq> [] \<Longrightarrow> indexOf sep (a @ sep) = Some (length a) \<Longrightarrow>
   splitScan sep piece (a @ sep @ rest) = (piece @ a) # splitScan sep [] rest"
proof (induction a arbitrary: piece)
  case Nil
  then obtain d ds where d: "sep = d # ds" by (cases sep) auto
  then show ?case by simp
next
  case (Cons x a)
  from Cons.prems(2) have np: "\<not> prefix sep (x # a @ sep)"
    by (auto split: if_splits)
  with Cons.prems(2) have ix: "indexOf sep (a @ sep) = Some (length a)"
    by (auto split: if_splits)
  have "\<not> prefix sep (x # a @ sep @ rest)"
  proof
    assume "prefix sep (x # a @ sep @ rest)"
    then have "prefix sep ((x # a @ sep) @ rest)" by simp
    then have "prefix sep (x # a @ sep)"
      by (rule prefix_append_short) simp
    with np show False by simp
  qed
  with Cons.IH [OF Cons.prems(1) ix] show ?case by simp
qed

lemma indexOf_None_iff: "indexOf sep s = None \<longleftrightarrow> \<not> sublist sep s"
  by (induction s) (auto simp: sublist_Cons_right)

text \<open>
  C10. Where the delimiter occurs (first at the end of \<open>a\<close>) and occurs again behind that
  occurrence (next at the end of \<open>b\<close>), the narrative part is the trimmed text \<open>a\<close> before
  the first occurrence and the structured part is the trimmed text \<open>b\<close> between the two;
  the text \<open>c\<close> behind the second occurrence is in neither part. Occurrences are counted as
  \<open>split\<close> finds them, from left to right and without overlap.
\<close>

theorem splitResponse_two_delimiters:
  assumes "indexOf delimiter (a @ delimiter) = Some (length a)"
    and "indexOf delimiter (b @ delimiter) = Some (length b)"
  shows "splitResponse (a @ delimiter @ b @ delimiter @ c) = Inr (trim a, trim b)"
proof -
  have ne: "delimiter \<noteq> []" by (simp add: delimiter_def str_def)
  have "split delimiter (a @ delimiter @ b @ delimiter @ c) = a # b # splitScan delimiter [] c"
    using splitScan_first [OF ne assms(1), of "[]" "b @ delimiter @ c"]
      splitScan_first [OF ne assms(2), of "[]" c] ne
    by (simp add: split_def)
  then show ?thesis by (simp add: splitResponse_def)
qed

theorem splitResponse_two_delimiters_witness:
  \<open>indexOf delimiter (str ''Relevant EPC: CLE '' @ delimiter) = Some (length (str ''Relevant EPC: CLE '')) \<and>
   indexOf delimiter (str '' [{"eventName":"Expo"}] '' @ delimiter) = Some (length (str '' [{"eventName":"Expo"}] '')) \<and>
   splitResponse (str ''Relevant EPC: CLE '' @ delimiter @ str '' [{"eventName":"Expo"}] '' @ delimiter @ str '' [{"eventName":"Fair"}]'')
     = Inr (str ''Relevant EPC: CLE'', str ''[{"eventName":"Expo"}]'')\<close>
proof -
  have h1: "indexOf delimiter (str ''Relevant EPC: CLE '' @ delimiter) = Some (length (str ''Relevant EPC: CLE ''))"
    by code_simp
  have h2: \<open>indexOf delimiter (str '' [{"eventName":"Expo"}] '' @ delimiter) = Some (length (str '' [{"eventName":"Expo"}] ''))\<close>
    by code_simp
  have t1: "trim (str ''Relevant EPC: CLE '') = str ''Relevant EPC: CLE''" by code_simp
  have t2: \<open>trim (str '' [{"eventName":"Expo"}] '') = str ''[{"eventName":"Expo"}]''\<close> by code_simp
  from splitResponse_two_delimiters [OF h1 h2, of \<open>str '' [{"eventName":"Fair"}]''\<close>] h1 h2 t1 t2
  show ?thesis by simp
qed

text \<open>
  The delimiter begins and ends with the same three underscores, so a second copy can
  start inside the first. \<open>split\<close> does not see it as a separator.
\<close>

lemma splitResponse_overlapping_copy:
  "splitResponse (str ''___JSON_START___JSON_START___'') = Inr ([], str ''JSON_START___'')"
  by code_simp

section \<open>Properties of the patterns and of JSON.parse\<close>

text \<open>A match of the array pattern begins with an opening bracket.\<close>

lemma rx_monotone: "rx as s k caps = Some (e, caps') \<Longrightarrow> k \<le> e"
proof (induction as s k caps arbitrary: e caps' rule: rx.induct)
  case (5 p as x xs k caps)
  then show ?case
    by (fastforce split: if_splits option.splits dest: Suc_leD)
next
  case (7 p as x xs k caps)
  then show ?case
    by (fastforce split: if_splits option.splits dest: Suc_leD)
qed (fastforce split: if_splits dest: Suc_leD)+

lemma rx_first_unit:
  "rx (Chr c # as) s 0 caps = Some (e, caps') \<Longrightarrow> \<exists>xs. s = c # xs \<and> 0 < e"
proof (cases s)
  case Nil
  assume "rx (Chr c # as) s 0 caps = Some (e, caps')"
  with Nil show ?thesis by simp
next
  case (Cons x xs)
  assume a: "rx (Chr c # as) s 0 caps = Some (e, caps')"
  with Cons have "x = c" and "rx as xs (Suc 0) caps = Some (e, caps')"
    by (auto split: if_splits)
  with Cons rx_monotone [of as xs "Suc 0" caps e caps'] show ?thesis by auto
qed

lemma regexMatch_first_unit:
  "regexMatch (Chr c # as) s = Some m \<Longrightarrow> \<exists>r. fst m = c # r"
proof (induction s)
  case Nil
  then show ?case by (auto dest: rx_first_unit)
next
  case (Cons x xs)
  show ?case
  proof (cases "rx (Chr c # as) (x # xs) 0 (None, None)")
    case None
    with Cons show ?thesis by simp
  next
    case (Some r)
    obtain e caps' where r: "r = (e, caps')" by (cases r)
    with Some rx_first_unit [of c as "x # xs" "(None, None)" e caps']
    have "x = c" "0 < e" by auto
    then obtain e' where "e = Suc e'" by (cases e) auto
    with Some r Cons.prems \<open>x = c\<close> show ?thesis
      by (auto simp: matchArray_def)
  qed
qed

lemma arrayPattern_match_bracket:
  "regexMatch arrayPattern s = Some m \<Longrightarrow> \<exists>r. fst m = cu CHR ''['' # r"
  by (rule regexMatch_first_unit [of _ "[Star isWhiteSpace] @ lit ''{'' @ [Star anyUnit] @ lit ''}'' @
     [Star isWhiteSpace] @ lit '']''"]) (simp add: arrayPattern_def lit_def)

lemma lex_bracket: "lex (cu CHR ''['' # r) = map_option (Cons LBracket) (lex r)"
  by (simp add: isJsonSpace_def cu_def)

text \<open>
  A text that begins with an opening bracket parses to an array or not at all: every step
  of the parser keeps an array outermost on the stack.
\<close>

lemma deliver_arrayState:
  "arrayAtBottom st \<Longrightarrow> deliver v st = Some s' \<Longrightarrow> arrayState s'"
  by (cases "(v, st)" rule: deliver.cases) (auto simp: arrayAtBottom_def split: if_splits)

lemma startValue_arrayState:
  "arrayAtBottom st \<Longrightarrow> startValue t st = Some s' \<Longrightarrow> arrayState s'"
  by (cases t) (auto simp: arrayAtBottom_def dest: deliver_arrayState [unfolded arrayAtBottom_def, OF conjI])

lemma closeArray_arrayState:
  "arrayAtBottom st \<Longrightarrow> closeArray st = Some s' \<Longrightarrow> arrayState s'"
proof (cases st rule: closeArray.cases)
  case (1 vs st')
  assume a: "arrayAtBottom st" and c: "closeArray st = Some s'"
  show ?thesis
  proof (cases st')
    case Nil
    with 1 c show ?thesis by auto
  next
    case (Cons f fs)
    with 1 a have "arrayAtBottom st'" by (simp add: arrayAtBottom_def)
    with 1 c show ?thesis by (auto dest: deliver_arrayState)
  qed
qed simp_all

lemma closeObject_arrayState:
  "arrayAtBottom st \<Longrightarrow> closeObject st = Some s' \<Longrightarrow> arrayState s'"
proof (cases st rule: closeObject.cases)
  case (1 ms st')
  assume a: "arrayAtBottom st" and c: "closeObject st = Some s'"
  show ?thesis
  proof (cases st')
    case Nil
    with 1 a show ?thesis by (simp add: arrayAtBottom_def)
  next
    case (Cons f fs)
    with 1 a have "arrayAtBottom st'" by (simp add: arrayAtBottom_def)
    with 1 c show ?thesis by (auto dest: deliver_arrayState)
  qed
qed simp_all

lemma startMember_arrayState:
  "arrayAtBottom st \<Longrightarrow> startMember t st = Some s' \<Longrightarrow> arrayState s'"
  by (cases "(t, st)" rule: startMember.cases) (auto simp: arrayAtBottom_def split: if_splits)

lemma afterComma_arrayState:
  "arrayAtBottom st \<Longrightarrow> afterComma st = Some s' \<Longrightarrow> arrayState s'"
  by (cases st rule: afterComma.cases) auto

lemma step_arrayState:
  "arrayState s \<Longrightarrow> step t s = Some s' \<Longrightarrow> arrayState s'"
proof (cases "(t, s)" rule: step.cases)
qed (auto split: if_splits
      dest: startValue_arrayState closeArray_arrayState closeObject_arrayState
        startMember_arrayState afterComma_arrayState)

lemma runTokens_arrayState:
  "arrayState s \<Longrightarrow> runTokens ts s = Some s' \<Longrightarrow> arrayState s'"
  by (induction ts arbitrary: s) (auto split: option.splits dest: step_arrayState)

lemma JSON_parse_bracket_array:
  assumes "JSON_parse (cu CHR ''['' # r) = Inr v"
  shows "\<exists>vs. v = JArray vs"
proof -
  from assms obtain ts where ts: "lex r = Some ts"
    and run: "runTokens (LBracket # ts) (Expect Value []) = Some (Done v)"
    by (auto simp: JSON_parse_def lex_bracket simp del: lex.simps
        split: option.splits pstate.splits)
  from run have "runTokens ts (Expect ValueOrClose [InArray []]) = Some (Done v)"
    by simp
  moreover have "arrayState (Expect ValueOrClose [InArray []])"
    by (simp add: arrayAtBottom_def)
  ultimately have "arrayState (Done v)" by (rule runTokens_arrayState [rotated])
  then show ?thesis by (cases v) auto
qed

section \<open>Properties of the Event Extractor\<close>

text \<open>No step of lines 65 to 91 raises.\<close>

lemma splitScan_nonempty: "splitScan sep piece s \<noteq> []"
  by (induction sep piece s rule: splitScan.induct) auto

lemma split_delimiter_nonempty: "split delimiter s \<noteq> []"
  by (simp add: split_def splitScan_nonempty delimiter_def str_def)

lemma splitResponse_returns: "\<exists>d j. splitResponse fullText = Inr (d, j)"
proof -
  obtain p ps where "split delimiter fullText = p # ps"
    using split_delimiter_nonempty [of fullText] by (cases "split delimiter fullText") auto
  then show ?thesis by (simp add: splitResponse_def)
qed

lemma tryCatch_returns: "\<exists>v. tryCatch body handler = Inr v"
  by (cases body) (simp_all add: tryCatch_def)

lemma codeBlockFallback_returns: "\<exists>v. codeBlockFallback d fullText = Inr v"
  by (auto simp: codeBlockFallback_def tryCatch_returns split: option.splits)

lemma extractEvents_returns: "\<exists>v. extractEvents jsonPart fullText = Inr v"
  by (auto simp: extractEvents_def Let_def tryCatch_returns codeBlockFallback_returns
      split: option.splits)

lemma searchTradeEventsResult_returns: "\<exists>res. searchTradeEventsResult r = Inr res"
proof -
  obtain d j where s: "splitResponse (fullTextOf r) = Inr (d, j)"
    using splitResponse_returns by blast
  obtain v where e: "extractEvents j (fullTextOf r) = Inr v"
    using extractEvents_returns by blast
  from s e show ?thesis by (simp add: searchTradeEventsResult_def Let_def)
qed

text \<open>The branches of the extractor.\<close>

lemma extractEvents_no_match:
  "regexMatch arrayPattern jsonPart = None \<Longrightarrow>
   extractEvents jsonPart fullText = codeBlockFallback (JArray []) fullText"
  by (simp add: extractEvents_def)

lemma extractEvents_parse_failure:
  "regexMatch arrayPattern jsonPart = Some m \<Longrightarrow> JSON_parse (fst m) = Inl e \<Longrightarrow>
   extractEvents jsonPart fullText = Inr (JArray [])"
  by (simp add: extractEvents_def tryCatch_def)

lemma extractEvents_parse_success:
  "regexMatch arrayPattern jsonPart = Some m \<Longrightarrow> JSON_parse (fst m) = Inr v \<Longrightarrow>
   extractEvents jsonPart fullText = Inr v"
  by (simp add: extractEvents_def tryCatch_def)

lemma codeBlockFallback_parse_success:
  "regexMatch codeBlockPattern fullText = Some (w, Some block) \<Longrightarrow> block \<noteq> [] \<Longrightarrow>
   JSON_parse block = Inr v \<Longrightarrow> codeBlockFallback d fullText = Inr v"
  by (simp add: codeBlockFallback_def tryCatch_def)

lemma codeBlockFallback_parse_failure:
  "regexMatch codeBlockPattern fullText = Some (w, Some block) \<Longrightarrow>
   JSON_parse block = Inl e \<Longrightarrow> codeBlockFallback d fullText = Inr d"
  by (simp add: codeBlockFallback_def tryCatch_def)

lemma codeBlockFallback_no_match:
  "regexMatch codeBlockPattern fullText = None \<Longrightarrow> codeBlockFallback d fullText = Inr d"
  by (simp add: codeBlockFallback_def)

lemma arrayPattern_empty: "regexMatch arrayPattern [] = None"
  by code_simp

lemma map_of_setProperty:
  "map_of (setProperty k x ms) k' = (if k' = k then Some x else map_of ms k')"
  by (induction ms) auto

lemma isEventDetail_other_property:
  assumes "k \<notin> set eventDetailKeys"
  shows "isEventDetail (JObject (setProperty k x ms)) = isEventDetail (JObject ms)"
proof -
  from assms have "str ''eventName'' \<noteq> k" "str ''date'' \<noteq> k" "str ''location'' \<noteq> k"
    "str ''type'' \<noteq> k" "str ''description'' \<noteq> k" "str ''url'' \<noteq> k"
    by (auto simp: eventDetailKeys_def)
  then show ?thesis
    by (simp add: isEventDetail_def requiredString_def optionalString_def map_of_setProperty)
qed

lemma first_stage_array:
  assumes "regexMatch arrayPattern jsonPart = Some m" and "JSON_parse (fst m) = Inr v"
  shows "\<exists>vs. v = JArray vs"
proof -
  from assms(1) obtain r where "fst m = cu CHR ''['' # r"
    using arrayPattern_match_bracket by blast
  with assms(2) show ?thesis
    using JSON_parse_bracket_array by simp
qed

text \<open>
  C1, as amended. Where the array pattern finds nothing in \<open>jsonPart\<close>, the extractor scans
  the whole original text for a fenced \<open>json\<close> block and parses its non-empty content; in
  particular it does so for every text without the delimiter. Where the pattern finds a
  substring and parsing it fails, the extractor does not fall back: the result is the empty
  sequence.
\<close>

theorem extractEvents_fallback:
  "(regexMatch arrayPattern jsonPart = None \<longrightarrow>
      extractEvents jsonPart fullText = codeBlockFallback (JArray []) fullText) \<and>
   (regexMatch arrayPattern jsonPart = Some m \<and> JSON_parse (fst m) = Inl e \<longrightarrow>
      extractEvents jsonPart fullText = Inr (JArray [])) \<and>
   (regexMatch codeBlockPattern fullText = Some (w, Some block) \<and> block \<noteq> [] \<and>
    JSON_parse block = Inr v \<longrightarrow>
      codeBlockFallback (JArray []) fullText = Inr v) \<and>
   (\<not> sublist delimiter fullText \<longrightarrow>
      splitResponse fullText = Inr (trim fullText, []) \<and>
      extractEvents [] fullText = codeBlockFallback (JArray []) fullText)"
  using extractEvents_no_match [of jsonPart fullText]
    extractEvents_parse_failure [of jsonPart m e fullText]
    codeBlockFallback_parse_success [of fullText w block v "JArray []"]
    extractEvents_no_match [OF arrayPattern_empty, of fullText]
  by (simp add: splitResponse_def split_absent)

theorem extractEvents_fallback_witness:
  \<open>regexMatch arrayPattern [] = None \<and>
   \<not> sublist delimiter (str ''Events: ```json [{"eventName":"Expo"}] ```'') \<and>
   regexMatch codeBlockPattern (str ''Events: ```json [{"eventName":"Expo"}] ```'') =
     Some (str ''```json [{"eventName":"Expo"}] ```'', Some (str ''[{"eventName":"Expo"}]'')) \<and>
   JSON_parse (str ''[{"eventName":"Expo"}]'') =
     Inr (JArray [JObject [(str ''eventName'', JString (str ''Expo''))]]) \<and>
   extractEvents [] (str ''Events: ```json [{"eventName":"Expo"}] ```'') =
     Inr (JArray [JObject [(str ''eventName'', JString (str ''Expo''))]]) \<and>
   regexMatch arrayPattern (str ''[{"eventName":"Expo",}]'') =
     Some (str ''[{"eventName":"Expo",}]'', None) \<and>
   JSON_parse (str ''[{"eventName":"Expo",}]'') = Inl SyntaxError \<and>
   extractEvents (str ''[{"eventName":"Expo",}]'')
     (str ''Events: ```json [{"eventName":"Expo"}] ```'') = Inr (JArray [])\<close>
proof -
  have a: "regexMatch arrayPattern [] = None" by code_simp
  have b: \<open>\<not> sublist delimiter (str ''Events: ```json [{"eventName":"Expo"}] ```'')\<close>
    by code_simp
  have c: \<open>regexMatch codeBlockPattern (str ''Events: ```json [{"eventName":"Expo"}] ```'') =
     Some (str ''```json [{"eventName":"Expo"}] ```'', Some (str ''[{"eventName":"Expo"}]''))\<close>
    by code_simp
  have d: \<open>JSON_parse (str ''[{"eventName":"Expo"}]'') =
     Inr (JArray [JObject [(str ''eventName'', JString (str ''Expo''))]])\<close>
    by code_simp
  have n: \<open>str ''[{"eventName":"Expo"}]'' \<noteq> []\<close>
    by (simp add: str_def)
  have f: \<open>regexMatch arrayPattern (str ''[{"eventName":"Expo",}]'') =
     Some (str ''[{"eventName":"Expo",}]'', None)\<close>
    by code_simp
  have g: \<open>JSON_parse (str ''[{"eventName":"Expo",}]'') = Inl SyntaxError\<close>
    by code_simp
  note t1 = extractEvents_fallback
    [of "[]" \<open>str ''Events: ```json [{"eventName":"Expo"}] ```''\<close> _ _
      \<open>str ''```json [{"eventName":"Expo"}] ```''\<close> \<open>str ''[{"eventName":"Expo"}]''\<close>
      \<open>JArray [JObject [(str ''eventName'', JString (str ''Expo''))]]\<close>]
  note t2 = extractEvents_fallback
    [of \<open>str ''[{"eventName":"Expo",}]''\<close> \<open>str ''Events: ```json [{"eventName":"Expo"}] ```''\<close>
      \<open>(str ''[{"eventName":"Expo",}]'', None)\<close> SyntaxError]
  from t1 a c d n have h: \<open>extractEvents [] (str ''Events: ```json [{"eventName":"Expo"}] ```'') =
     Inr (JArray [JObject [(str ''eventName'', JString (str ''Expo''))]])\<close>
    by metis
  from t2 f g have i: \<open>extractEvents (str ''[{"eventName":"Expo",}]'')
     (str ''Events: ```json [{"eventName":"Expo"}] ```'') = Inr (JArray [])\<close>
    by (metis fst_conv)
  from a b c d f g h i show ?thesis by blast
qed

text \<open>
  C1 as stated fails: the structured part holds an array with a trailing comma, the
  narrative holds a well-formed fenced block, which the fallback would parse to one event,
  and the extractor returns the empty sequence.
\<close>

theorem extractEvents_no_fallback_counterexample:
  \<open>splitResponse
     (str ''```json [{"eventName":"Expo"}] ``` ___JSON_START___ [{"eventName":"Expo",}]'') =
     Inr (str ''```json [{"eventName":"Expo"}] ```'', str ''[{"eventName":"Expo",}]'') \<and>
   regexMatch arrayPattern (str ''[{"eventName":"Expo",}]'') =
     Some (str ''[{"eventName":"Expo",}]'', None) \<and>
   JSON_parse (str ''[{"eventName":"Expo",}]'') = Inl SyntaxError \<and>
   codeBlockFallback (JArray [])
     (str ''```json [{"eventName":"Expo"}] ``` ___JSON_START___ [{"eventName":"Expo",}]'') =
     Inr (JArray [JObject [(str ''eventName'', JString (str ''Expo''))]]) \<and>
   extractEvents (str ''[{"eventName":"Expo",}]'')
     (str ''```json [{"eventName":"Expo"}] ``` ___JSON_START___ [{"eventName":"Expo",}]'') =
     Inr (JArray [])\<close>
  by code_simp

text \<open>
  C2, as amended. The extractor checks no element against the \<open>EventDetail\<close> shape: where
  the matched text parses, the result is the parsed value as it is, whatever its elements
  are. A property outside the shape does not change whether an object has the shape.
\<close>

theorem extractEvents_unchecked:
  "(regexMatch arrayPattern jsonPart = Some m \<and> JSON_parse (fst m) = Inr v \<longrightarrow>
      extractEvents jsonPart fullText = Inr v) \<and>
   (k \<notin> set eventDetailKeys \<longrightarrow>
      isEventDetail (JObject (setProperty k x ms)) = isEventDetail (JObject ms))"
  using extractEvents_parse_success [of jsonPart m v fullText]
    isEventDetail_other_property [of k x ms]
  by blast

theorem extractEvents_unchecked_witness:
  \<open>regexMatch arrayPattern
     (str ''[{"eventName":"Expo","date":"May 2027","location":"Dubai","type":"Fair","hall":"7"}]'') =
     Some (str ''[{"eventName":"Expo","date":"May 2027","location":"Dubai","type":"Fair","hall":"7"}]'', None) \<and>
   JSON_parse
     (str ''[{"eventName":"Expo","date":"May 2027","location":"Dubai","type":"Fair","hall":"7"}]'') =
     Inr (JArray [JObject
       [(str ''eventName'', JString (str ''Expo'')), (str ''date'', JString (str ''May 2027'')),
        (str ''location'', JString (str ''Dubai'')), (str ''type'', JString (str ''Fair'')),
        (str ''hall'', JString (str ''7''))]]) \<and>
   extractEvents
     (str ''[{"eventName":"Expo","date":"May 2027","location":"Dubai","type":"Fair","hall":"7"}]'') [] =
     Inr (JArray [JObject
       [(str ''eventName'', JString (str ''Expo'')), (str ''date'', JString (str ''May 2027'')),
        (str ''location'', JString (str ''Dubai'')), (str ''type'', JString (str ''Fair'')),
        (str ''hall'', JString (str ''7''))]]) \<and>
   str ''hall'' \<notin> set eventDetailKeys \<and>
   isEventDetail (JObject
       [(str ''eventName'', JString (str ''Expo'')), (str ''date'', JString (str ''May 2027'')),
        (str ''location'', JString (str ''Dubai'')), (str ''type'', JString (str ''Fair''))]) \<and>
   isEventDetail (JObject (setProperty (str ''hall'') (JString (str ''7''))
       [(str ''eventName'', JString (str ''Expo'')), (str ''date'', JString (str ''May 2027'')),
        (str ''location'', JString (str ''Dubai'')), (str ''type'', JString (str ''Fair''))]))\<close>
proof -
  have a: \<open>regexMatch arrayPattern
     (str ''[{"eventName":"Expo","date":"May 2027","location":"Dubai","type":"Fair","hall":"7"}]'') =
     Some (str ''[{"eventName":"Expo","date":"May 2027","location":"Dubai","type":"Fair","hall":"7"}]'', None)\<close>
    by code_simp
  have b: \<open>JSON_parse
     (str ''[{"eventName":"Expo","date":"May 2027","location":"Dubai","type":"Fair","hall":"7"}]'') =
     Inr (JArray [JObject
       [(str ''eventName'', JString (str ''Expo'')), (str ''date'', JString (str ''May 2027'')),
        (str ''location'', JString (str ''Dubai'')), (str ''type'', JString (str ''Fair'')),
        (str ''hall'', JString (str ''7''))]])\<close>
    by code_simp
  have c: "str ''hall'' \<notin> set eventDetailKeys"
    by code_simp
  have d: \<open>isEventDetail (JObject
       [(str ''eventName'', JString (str ''Expo'')), (str ''date'', JString (str ''May 2027'')),
        (str ''location'', JString (str ''Dubai'')), (str ''type'', JString (str ''Fair''))])\<close>
    by code_simp
  note t = extractEvents_unchecked
    [of \<open>str ''[{"eventName":"Expo","date":"May 2027","location":"Dubai","type":"Fair","hall":"7"}]''\<close>
      \<open>(str ''[{"eventName":"Expo","date":"May 2027","location":"Dubai","type":"Fair","hall":"7"}]'', None)\<close>
      \<open>JArray [JObject
       [(str ''eventName'', JString (str ''Expo'')), (str ''date'', JString (str ''May 2027'')),
        (str ''location'', JString (str ''Dubai'')), (str ''type'', JString (str ''Fair'')),
        (str ''hall'', JString (str ''7''))]]\<close>
      "[]" "str ''hall''" "JString (str ''7'')"
      \<open>[(str ''eventName'', JString (str ''Expo'')), (str ''date'', JString (str ''May 2027'')),
        (str ''location'', JString (str ''Dubai'')), (str ''type'', JString (str ''Fair''))]\<close>]
  from t a b have e: \<open>extractEvents
     (str ''[{"eventName":"Expo","date":"May 2027","location":"Dubai","type":"Fair","hall":"7"}]'') [] =
     Inr (JArray [JObject
       [(str ''eventName'', JString (str ''Expo'')), (str ''date'', JString (str ''May 2027'')),
        (str ''location'', JString (str ''Dubai'')), (str ''type'', JString (str ''Fair'')),
        (str ''hall'', JString (str ''7''))]])\<close>
    by (metis fst_conv)
  from t c d have f: \<open>isEventDetail (JObject (setProperty (str ''hall'') (JString (str ''7''))
       [(str ''eventName'', JString (str ''Expo'')), (str ''date'', JString (str ''May 2027'')),
        (str ''location'', JString (str ''Dubai'')), (str ''type'', JString (str ''Fair''))]))\<close>
    by blast
  from a b c d e f show ?thesis by blast
qed

text \<open>
  C2 as stated fails: an element whose \<open>eventName\<close> is a number and which has no \<open>date\<close>,
  \<open>location\<close> and \<open>type\<close> is returned.
\<close>

theorem extractEvents_shape_counterexample:
  \<open>extractEvents (str ''[{"eventName": 5, "venue": "Hall 1"}]'') [] =
     Inr (JArray [JObject
       [(str ''eventName'', JNumber (str ''5'')), (str ''venue'', JString (str ''Hall 1''))]]) \<and>
   \<not> isEventDetailArray (JArray [JObject
       [(str ''eventName'', JNumber (str ''5'')), (str ''venue'', JString (str ''Hall 1''))]])\<close>
  by code_simp

text \<open>
  What holds of the extraction. It raises nothing, for every response and every pair of
  structured part and full text. A parse failure at the first stage or at the fallback
  stage gives the empty sequence, and so does a text in which neither pattern finds
  anything. A parse that succeeds at the first stage gives a sequence.
\<close>

lemma extraction_never_raises:
  "(\<exists>res. searchTradeEventsResult r = Inr res) \<and>
   (\<exists>v. extractEvents jsonPart fullText = Inr v) \<and>
   (regexMatch arrayPattern jsonPart = Some m \<and> JSON_parse (fst m) = Inl e \<longrightarrow>
      extractEvents jsonPart fullText = Inr (JArray [])) \<and>
   (regexMatch arrayPattern jsonPart = Some m \<and> JSON_parse (fst m) = Inr v \<longrightarrow>
      extractEvents jsonPart fullText = Inr v \<and> (\<exists>vs. v = JArray vs)) \<and>
   (regexMatch arrayPattern jsonPart = None \<and>
    regexMatch codeBlockPattern fullText = Some (w, Some block) \<and> JSON_parse block = Inl e \<longrightarrow>
      extractEvents jsonPart fullText = Inr (JArray [])) \<and>
   (regexMatch arrayPattern jsonPart = None \<and> regexMatch codeBlockPattern fullText = None \<longrightarrow>
      extractEvents jsonPart fullText = Inr (JArray []))"
  using searchTradeEventsResult_returns [of r] extractEvents_returns [of jsonPart fullText]
    extractEvents_parse_failure [of jsonPart m e fullText]
    extractEvents_parse_success [of jsonPart m v fullText]
    first_stage_array [of jsonPart m v]
    extractEvents_no_match [of jsonPart fullText]
    codeBlockFallback_parse_failure [of fullText w block e "JArray []"]
    codeBlockFallback_no_match [of fullText "JArray []"]
  by simp

lemma extraction_never_raises_examples:
  \<open>regexMatch arrayPattern (str ''[{"eventName":"Expo",}]'') =
     Some (str ''[{"eventName":"Expo",}]'', None) \<and>
   JSON_parse (str ''[{"eventName":"Expo",}]'') = Inl SyntaxError \<and>
   extractEvents (str ''[{"eventName":"Expo",}]'') (str ''[{"eventName":"Expo",}]'') = Inr (JArray []) \<and>
   regexMatch arrayPattern (str ''[{}]'') = Some (str ''[{}]'', None) \<and>
   JSON_parse (str ''[{}]'') = Inr (JArray [JObject []]) \<and>
   extractEvents (str ''[{}]'') (str ''[{}]'') = Inr (JArray [JObject []]) \<and>
   regexMatch arrayPattern [] = None \<and>
   regexMatch codeBlockPattern (str ''```json [{"eventName":"Expo" ```'') =
     Some (str ''```json [{"eventName":"Expo" ```'', Some (str ''[{"eventName":"Expo"'')) \<and>
   JSON_parse (str ''[{"eventName":"Expo"'') = Inl SyntaxError \<and>
   extractEvents [] (str ''```json [{"eventName":"Expo" ```'') = Inr (JArray []) \<and>
   regexMatch codeBlockPattern (str ''No results found.'') = None \<and>
   extractEvents [] (str ''No results found.'') = Inr (JArray [])\<close>
proof -
  have a: \<open>regexMatch arrayPattern (str ''[{"eventName":"Expo",}]'') =
     Some (str ''[{"eventName":"Expo",}]'', None)\<close> by code_simp
  have b: \<open>JSON_parse (str ''[{"eventName":"Expo",}]'') = Inl SyntaxError\<close> by code_simp
  have c: "regexMatch arrayPattern (str ''[{}]'') = Some (str ''[{}]'', None)" by code_simp
  have d: "JSON_parse (str ''[{}]'') = Inr (JArray [JObject []])" by code_simp
  have f: "regexMatch arrayPattern [] = None" by code_simp
  have g: \<open>regexMatch codeBlockPattern (str ''```json [{"eventName":"Expo" ```'') =
     Some (str ''```json [{"eventName":"Expo" ```'', Some (str ''[{"eventName":"Expo"''))\<close>
    by code_simp
  have h: \<open>JSON_parse (str ''[{"eventName":"Expo"'') = Inl SyntaxError\<close> by code_simp
  have i: "regexMatch codeBlockPattern (str ''No results found.'') = None" by code_simp
  note t1 = extraction_never_raises
    [of _ \<open>str ''[{"eventName":"Expo",}]''\<close> \<open>str ''[{"eventName":"Expo",}]''\<close>
      \<open>(str ''[{"eventName":"Expo",}]'', None)\<close> SyntaxError]
  note t2 = extraction_never_raises
    [of _ "str ''[{}]''" "str ''[{}]''" "(str ''[{}]'', None)" _ "JArray [JObject []]"]
  note t3 = extraction_never_raises
    [of _ "[]" \<open>str ''```json [{"eventName":"Expo" ```''\<close> _ SyntaxError _
      \<open>str ''```json [{"eventName":"Expo" ```''\<close> \<open>str ''[{"eventName":"Expo"''\<close>]
  note t4 = extraction_never_raises [of _ "[]" "str ''No results found.''"]
  from t1 a b have j: \<open>extractEvents (str ''[{"eventName":"Expo",}]'')
     (str ''[{"eventName":"Expo",}]'') = Inr (JArray [])\<close>
    by (metis fst_conv)
  from t2 c d have k: "extractEvents (str ''[{}]'') (str ''[{}]'') = Inr (JArray [JObject []])"
    by (metis fst_conv)
  from t3 f g h have l: \<open>extractEvents [] (str ''```json [{"eventName":"Expo" ```'') = Inr (JArray [])\<close>
    by metis
  from t4 f i have n: "extractEvents [] (str ''No results found.'') = Inr (JArray [])"
    by metis
  from a b c d f g h i j k l n show ?thesis by blast
qed

text \<open>
  C3 (the code departs from the claim). The fallback stage assigns whatever the fenced
  block parses to: for a block that holds the number 42, or an object, \<open>structuredEvents\<close>
  is that number or that object and not a sequence, where the first stage gives sequences
  only.
\<close>

theorem extraction_fallback_not_a_sequence:
  \<open>searchTradeEventsResult \<lparr> responseText = Some (str ''```json 42 ```''), responseChunks = None \<rparr> =
     Inr \<lparr> searchText = str ''```json 42 ```'',
           structuredEvents = JNumber (str ''42''),
           groundingChunks = [] \<rparr> \<and>
   extractEvents [] (str ''```json 42 ```'') = Inr (JNumber (str ''42'')) \<and>
   extractEvents [] (str ''```json {"eventName":"Expo"} ```'') =
     Inr (JObject [(str ''eventName'', JString (str ''Expo''))])\<close>
  by code_simp

section \<open>Properties of the session handlers\<close>

text \<open>
  C4. A search started with a non-empty product query sets \<open>analysisResult\<close> and \<open>mapResult\<close>
  to null before it sets the new \<open>searchResult\<close>: the setter calls of a successful search
  are the clearing calls followed by the call that stores the result, both slots are null
  after the clearing calls and stay null whatever the outcome of the search is.
\<close>

theorem handleSearch_clears_analysis_and_map:
  assumes "productQuery s \<noteq> []"
  shows "handleSearch s (Inr result) =
           handleSearchBegin @ [SetSearchResult (Some result), SetSearchStatus Success] \<and>
         SetSearchResult (Some result) \<notin> set handleSearchBegin \<and>
         analysisResult (run handleSearchBegin s) = None \<and>
         mapResult (run handleSearchBegin s) = None \<and>
         searchResult (run handleSearchBegin s) = None \<and>
         searchResult (run (handleSearch s (Inr result)) s) = Some result \<and>
         analysisResult (run (handleSearch s outcome) s) = None \<and>
         mapResult (run (handleSearch s outcome) s) = None"
  using assms
  by (cases outcome) (simp_all add: handleSearch_def handleSearchBegin_def handleSearchSettle_def)

theorem handleSearch_clears_analysis_and_map_witness:
  "productQuery analysedSession \<noteq> [] \<and>
   analysisResult analysedSession \<noteq> None \<and>
   mapResult analysedSession \<noteq> None \<and>
   analysisResult (run handleSearchBegin analysedSession) = None \<and>
   mapResult (run handleSearchBegin analysedSession) = None \<and>
   searchResult (run handleSearchBegin analysedSession) = None \<and>
   analysisResult (run (handleSearch analysedSession (Inl CallFailed)) analysedSession) = None \<and>
   mapResult (run (handleSearch analysedSession (Inl CallFailed)) analysedSession) = None"
proof -
  have h: "productQuery analysedSession \<noteq> []"
    by (simp add: analysedSession_def str_def)
  have a: "analysisResult analysedSession \<noteq> None" "mapResult analysedSession \<noteq> None"
    by (simp_all add: analysedSession_def)
  from h a handleSearch_clears_analysis_and_map
    [OF h, of "\<lparr> searchText = [], structuredEvents = JArray [], groundingChunks = [] \<rparr>"
      "Inl CallFailed"]
  show ?thesis by blast
qed

text \<open>
  What a failed call leaves in the result slot of its handler. A failed search and a
  failed venue lookup leave their slot null; a failed analysis leaves the slot as it was.
\<close>

lemma handleAnalysis_failure_keeps_result:
  "analysisResult (run (handleAnalysis s (Inl e)) s) = analysisResult s"
  by (simp add: handleAnalysis_def)

lemma handleSearch_failure_clears_result:
  "productQuery s \<noteq> [] \<Longrightarrow> searchResult (run (handleSearch s (Inl e)) s) = None"
  by (simp add: handleSearch_def handleSearchBegin_def handleSearchSettle_def)

lemma handleMapSearch_failure_clears_result:
  "mapResult (run (handleMapSearch eventName (Inl e)) s) = None"
  by (simp add: handleMapSearch_def)

text \<open>
  C5 (the code departs from the claim). After a successful analysis, an analysis that
  fails leaves the earlier result in \<open>analysisResult\<close>, next to the status \<open>Error\<close>.
\<close>

theorem handleAnalysis_failure_stale_result:
  "analysisResult (run (handleAnalysis analysedSession (Inl CallFailed)) analysedSession) =
     Some \<lparr> analysisText = str ''Attend the Dubai fair.'' \<rparr> \<and>
   analysisStatus (run (handleAnalysis analysedSession (Inl CallFailed)) analysedSession) = Error"
  by (simp add: handleAnalysis_def analysedSession_def str_def)

section \<open>Properties of the venue lookup\<close>

lemma findEventLocationConfig_toolConfig:
  "toolConfig (findEventLocationConfig userLat userLng) =
     (if truthyNumber userLat \<and> truthyNumber userLng
      then Some \<lparr> retrievalConfig = \<lparr> latLng = \<lparr> latitude = the userLat, longitude = the userLng \<rparr> \<rparr> \<rparr>
      else None)"
  by (cases userLat; cases userLng) (simp_all add: findEventLocationConfig_def Let_def)

text \<open>
  C7 (the code departs from the claim). A pair with latitude 0, or with longitude 0, is
  finite, and it is not passed on: the configuration has no \<open>toolConfig\<close>.
\<close>

theorem findEventLocation_zero_latitude_dropped:
  "findEventLocationConfig (Some (Finite 0)) (Some (Finite 77)) = \<lparr> tools = [GoogleMaps], toolConfig = None \<rparr> \<and>
   findEventLocationConfig (Some (Finite 51)) (Some (Finite 0)) = \<lparr> tools = [GoogleMaps], toolConfig = None \<rparr>"
  by (simp add: findEventLocationConfig_def)

section \<open>Properties of the report file name\<close>

lemma digit_unit: "k < 10 \<Longrightarrow> isDigit (0x30 + of_nat k)"
proof -
  assume "k < 10"
  then have "k = 0 \<or> k = 1 \<or> k = 2 \<or> k = 3 \<or> k = 4 \<or> k = 5 \<or> k = 6 \<or> k = 7 \<or> k = 8 \<or> k = 9"
    by arith
  then show ?thesis by (auto simp: isDigit_def)
qed

lemma digitsOf_digits: "list_all isDigit (digitsOf n)"
proof (induction n rule: digitsOf.induct)
  case (1 n)
  show ?case
  proof (cases "n < 10")
    case True
    then show ?thesis by (subst digitsOf.simps) (simp add: digit_unit)
  next
    case False
    with 1 show ?thesis by (subst digitsOf.simps) (simp add: digit_unit)
  qed
qed

lemma safeName_units: "list_all (\<lambda>c. isAlphanumeric c \<or> c = cu CHR ''_'') (safeName product)"
  by (auto simp: safeName_def replaceNonAlphanumeric_def list_all_iff dest!: in_set_takeD)

text \<open>
  C6, as amended. The sanitized name is the first 20 code units of the product with every
  code unit that is not an ASCII letter or digit replaced by an underscore: it has the
  length of the product, at most 20, and holds ASCII letters, digits and underscores only.
  The file name is \<open>Kinetick_Trade_Report_\<close>, the sanitized name, an underscore, the
  timestamp in decimal digits, a dot and the extension.
\<close>

theorem getFileName_sanitized:
  "safeName product = map (\<lambda>c. if isAlphanumeric c then c else cu CHR ''_'') (take 20 product) \<and>
   length (safeName product) = min 20 (length product) \<and>
   list_all (\<lambda>c. isAlphanumeric c \<or> c = cu CHR ''_'') (safeName product) \<and>
   getFileName product ext now =
     str ''Kinetick_Trade_Report_'' @ safeName product @ str ''_'' @ numberToString now @ str ''.'' @ ext \<and>
   (0 \<le> now \<longrightarrow> list_all isDigit (numberToString now))"
  by (simp add: safeName_units getFileName_def numberToString_def digitsOf_digits)
     (simp add: safeName_def replaceNonAlphanumeric_def take_map min_def)

theorem getFileName_sanitized_witness:
  "safeName (str ''Tea & Spices!!'') = str ''Tea___Spices__'' \<and>
   (0::int) \<le> 1762150000000 \<and>
   list_all isDigit (numberToString 1762150000000) \<and>
   getFileName (str ''Tea & Spices!!'') (str ''pdf'') 1762150000000 =
     str ''Kinetick_Trade_Report_Tea___Spices___1762150000000.pdf''"
proof -
  have a: "safeName (str ''Tea & Spices!!'') = str ''Tea___Spices__''" by code_simp
  have b: "numberToString 1762150000000 = str ''1762150000000''"
    by (simp add: numberToString_def digitsOf.simps str_def cu_def)
  from getFileName_sanitized [of "str ''Tea & Spices!!''" "str ''pdf''" 1762150000000] a b
  show ?thesis by (simp add: str_def)
qed

text \<open>
  C6 as stated fails: the sanitized name of \<open>Tea & Spices!!\<close> holds underscores, which
  are no alphanumeric characters.
\<close>

theorem safeName_underscores_counterexample:
  "safeName (str ''Tea & Spices!!'') = str ''Tea___Spices__'' \<and>
   \<not> list_all isAlphanumeric (safeName (str ''Tea & Spices!!''))"
  by code_simp

section \<open>Properties of the Query Builder\<close>

text \<open>Literals of the source are contained in one another as their texts are.\<close>

lemma cu_inj: "cu c = cu d \<longleftrightarrow> c = d"
proof
  assume "cu c = cu d"
  then have "unat (of_char c :: 16 word) = unat (of_char d :: 16 word)"
    by (simp add: cu_def)
  moreover have "\<And>e. unat (of_char e :: 16 word) = of_char e"
    by (simp add: of_char_def unat_of_nat take_bit_nat_eq_self_iff)
  ultimately show "c = d" by simp
qed simp

lemma sublist_str: "sublist (str a) (str b) \<Longrightarrow> sublist a b"
proof -
  assume "sublist (str a) (str b)"
  then obtain ys where ys: "sublist ys b" "map cu a = map cu ys"
    using sublist_map_rightE [of "map cu a" cu b] unfolding str_def by blast
  from ys(2) have "a = ys" by (simp add: inj_map_eq_map inj_on_def cu_inj)
  with ys(1) show ?thesis by simp
qed

lemma str_append: "str (a @ b) = str a @ str b"
  by (simp add: str_def)

lemma prefix_strI: "prefix a b \<Longrightarrow> prefix (str a) (str b)"
  unfolding str_def by (rule map_mono_prefix)

lemma suffix_strI: "suffix a b \<Longrightarrow> suffix (str a) (str b)"
  unfolding str_def by (rule map_mono_suffix)

text \<open>
  An occurrence of \<open>m\<close> that begins in \<open>p\<close> and ends behind it holds the last two units of
  \<open>p\<close>, or is one unit deep in \<open>p\<close>; one that begins before \<open>p\<close> and ends in it holds the
  first two units of \<open>p\<close>, or is one unit deep in \<open>p\<close>.
\<close>

lemma skip_left:
  assumes occ: "sublist m (p @ y)" and np: "\<not> sublist m p"
    and two: "suffix [a, b] p" and nab: "\<not> sublist [a, b] m" and nb: "b \<noteq> hd m"
  shows "sublist m y"
proof (rule ccontr)
  assume ny: "\<not> sublist m y"
  with occ np obtain m1 m2 where m: "m = m1 @ m2" and s: "suffix m1 p" and pr: "prefix m2 y"
    by (auto simp: sublist_append)
  from ny m pr have m1: "m1 \<noteq> []" by auto
  from s two have "suffix [a, b] m1 \<or> suffix m1 [a, b]"
    using suffix_same_cases by blast
  then show False
  proof
    assume "suffix [a, b] m1"
    then have "sublist [a, b] (m1 @ m2)"
      by (auto simp: suffix_def sublist_def) (metis append.assoc)
    with m nab show False by simp
  next
    assume "suffix m1 [a, b]"
    with m1 have "m1 = [b] \<or> m1 = [a, b]"
      by (auto simp: suffix_def append_eq_Cons_conv Cons_eq_append_conv)
    then show False
    proof
      assume "m1 = [b]"
      with m nb show False by simp
    next
      assume "m1 = [a, b]"
      with m have "sublist [a, b] m" by (auto simp: sublist_def intro: exI [of _ "[]"])
      with nab show False by simp
    qed
  qed
qed

lemma skip_right:
  assumes occ: "sublist m (v @ p @ y)" and nv: "\<not> sublist m v"
    and two: "prefix [a, b] p" and nab: "\<not> sublist [a, b] m" and na: "a \<noteq> last m"
  shows "sublist m (p @ y)"
proof (rule ccontr)
  assume ny: "\<not> sublist m (p @ y)"
  with occ nv obtain m1 m2 where m: "m = m1 @ m2" and s: "suffix m1 v" and pr: "prefix m2 (p @ y)"
    by (auto simp: sublist_append)
  from nv m s have m2: "m2 \<noteq> []" by auto
  from two have "prefix [a, b] (p @ y)" by simp
  with pr have "prefix [a, b] m2 \<or> prefix m2 [a, b]"
    using prefix_same_cases by blast
  then show False
  proof
    assume "prefix [a, b] m2"
    then have "sublist [a, b] (m1 @ m2)"
      by (auto simp: prefix_def sublist_def)
    with m nab show False by simp
  next
    assume "prefix m2 [a, b]"
    with m2 have "m2 = [a] \<or> m2 = [a, b]"
      by (auto simp: prefix_def Cons_eq_append_conv)
    then show False
    proof
      assume "m2 = [a]"
      with m na show False by simp
    next
      assume "m2 = [a, b]"
      with m have "sublist [a, b] m" by (auto simp: sublist_def)
      with nab show False by simp
    qed
  qed
qed


lemma locationInstruction_nonBlank:
  "nonBlank location \<Longrightarrow> locationInstruction location = filterInstruction (the location)"
  by (cases location) (simp_all add: nonBlank_def locationInstruction_def)

lemma locationInstruction_blank:
  "\<not> nonBlank location \<Longrightarrow> locationInstruction location = globalInstruction"
  by (cases location) (auto simp: nonBlank_def locationInstruction_def)

lemma sublist_middle: "sublist xs (a @ xs @ b)"
  by (auto simp: sublist_def)

lemma searchPrompt_contains_instruction:
  "sublist (locationInstruction location) (searchPrompt today q location)"
proof -
  have "searchPrompt today q location =
      (promptText1 @ today @ promptText2 @ q @ promptText3 @ today @ promptText4) @
      locationInstruction location @ promptText5"
    by (simp add: searchPrompt_def)
  then show ?thesis by (simp only: sublist_middle)
qed

text \<open>
  The fixed parts of the prompt of a search without a location: none holds the words
  \<open>CRITICAL INSTRUCTION\<close>, and the units at their ends are as follows.
\<close>

lemma promptText1_no_marker: "\<not> sublist (str ''CRITICAL INSTRUCTION'') promptText1"
  unfolding promptText1_def by (rule notI, drule sublist_str) (simp add: sublist_Cons_right)

lemma promptText2_no_marker: "\<not> sublist (str ''CRITICAL INSTRUCTION'') promptText2"
  unfolding promptText2_def by (rule notI, drule sublist_str) (simp add: sublist_Cons_right)

lemma promptText3_no_marker: "\<not> sublist (str ''CRITICAL INSTRUCTION'') promptText3"
  unfolding promptText3_def by (rule notI, drule sublist_str) (simp add: sublist_Cons_right)

lemma promptGlobalEnd_no_marker:
  "\<not> sublist (str ''CRITICAL INSTRUCTION'') (promptText4 @ globalInstruction @ promptText5)"
  unfolding promptText4_def globalInstruction_def promptText5_def str_append [symmetric]
  by (rule notI, drule sublist_str) (simp add: sublist_Cons_right)

lemma promptText1_end: "suffix [cu CHR '':'', cu CHR '' ''] promptText1"
proof -
  have "suffix (str '': '') promptText1"
    unfolding promptText1_def by (intro suffix_strI suffix_appendI) (simp add: suffix_to_prefix)
  then show ?thesis by (simp add: str_def)
qed

lemma promptText2_begin: "prefix [cu CHR ''.'', cu CHR ''\<newline>''] promptText2"
proof -
  have "prefix (str ''.\<newline>'') promptText2"
    unfolding promptText2_def by (intro prefix_strI prefix_prefix) simp
  then show ?thesis by (simp add: str_def)
qed

lemma promptText2_end: \<open>suffix [cu CHR '' '', cu CHR ''"''] promptText2\<close>
proof -
  have \<open>suffix (str '' "'') promptText2\<close>
    unfolding promptText2_def by (intro suffix_strI suffix_appendI) (simp add: suffix_to_prefix)
  then show ?thesis by (simp add: str_def)
qed

lemma promptText3_begin: \<open>prefix [cu CHR ''"'', cu CHR ''.''] promptText3\<close>
proof -
  have \<open>prefix (str ''".'') promptText3\<close>
    unfolding promptText3_def by (intro prefix_strI prefix_prefix) simp
  then show ?thesis by (simp add: str_def)
qed

lemma promptText3_end: "suffix [cu CHR ''R'', cu CHR '' ''] promptText3"
proof -
  have "suffix (str ''R '') promptText3"
    unfolding promptText3_def by (intro suffix_strI suffix_appendI) (simp add: suffix_to_prefix)
  then show ?thesis by (simp add: str_def)
qed

lemma promptText4_begin: "prefix [cu CHR ''.'', cu CHR ''\<newline>''] promptText4"
proof -
  have "prefix (str ''.\<newline>'') promptText4"
    unfolding promptText4_def by (intro prefix_strI prefix_prefix) simp
  then show ?thesis by (simp add: str_def)
qed

text \<open>The words \<open>CRITICAL INSTRUCTION\<close> hold none of these pairs of units.\<close>

lemma marker_pairs:
  "\<not> sublist [cu CHR '':'', cu CHR '' ''] (str ''CRITICAL INSTRUCTION'')"
  "\<not> sublist [cu CHR ''.'', cu CHR ''\<newline>''] (str ''CRITICAL INSTRUCTION'')"
  \<open>\<not> sublist [cu CHR '' '', cu CHR ''"''] (str ''CRITICAL INSTRUCTION'')\<close>
  \<open>\<not> sublist [cu CHR ''"'', cu CHR ''.''] (str ''CRITICAL INSTRUCTION'')\<close>
  "\<not> sublist [cu CHR ''R'', cu CHR '' ''] (str ''CRITICAL INSTRUCTION'')"
  by (simp_all add: sublist_Cons_right str_def cu_def)

lemma marker_ends:
  "cu CHR '' '' \<noteq> hd (str ''CRITICAL INSTRUCTION'')"
  \<open>cu CHR ''"'' \<noteq> hd (str ''CRITICAL INSTRUCTION'')\<close>
  "cu CHR ''.'' \<noteq> last (str ''CRITICAL INSTRUCTION'')"
  \<open>cu CHR ''"'' \<noteq> last (str ''CRITICAL INSTRUCTION'')\<close>
  by (simp_all add: str_def cu_def)

lemma searchPrompt_blank_no_marker:
  assumes blank: "\<not> nonBlank location"
    and nt: "\<not> sublist (str ''CRITICAL INSTRUCTION'') today"
    and nq: "\<not> sublist (str ''CRITICAL INSTRUCTION'') product"
  shows "\<not> sublist (str ''CRITICAL INSTRUCTION'') (searchPrompt today product location)"
proof
  let ?m = "str ''CRITICAL INSTRUCTION''"
  let ?c = "promptText4 @ globalInstruction @ promptText5"
  assume "sublist ?m (searchPrompt today product location)"
  with locationInstruction_blank [OF blank]
  have "sublist ?m (promptText1 @ today @ promptText2 @ product @ promptText3 @ today @ ?c @ [])"
    by (simp add: searchPrompt_def)
  then have "sublist ?m (today @ promptText2 @ product @ promptText3 @ today @ ?c @ [])"
    by (rule skip_left [OF _ promptText1_no_marker promptText1_end marker_pairs(1) marker_ends(1)])
  then have "sublist ?m (promptText2 @ product @ promptText3 @ today @ ?c @ [])"
    by (rule skip_right [OF _ nt promptText2_begin marker_pairs(2) marker_ends(3)])
  then have "sublist ?m (product @ promptText3 @ today @ ?c @ [])"
    by (rule skip_left [OF _ promptText2_no_marker promptText2_end marker_pairs(3) marker_ends(2)])
  then have "sublist ?m (promptText3 @ today @ ?c @ [])"
    by (rule skip_right [OF _ nq promptText3_begin marker_pairs(4) marker_ends(4)])
  then have "sublist ?m (today @ ?c @ [])"
    by (rule skip_left [OF _ promptText3_no_marker promptText3_end marker_pairs(5) marker_ends(1)])
  moreover have "prefix [cu CHR ''.'', cu CHR ''\<newline>''] ?c"
    using promptText4_begin by (rule prefix_prefix)
  ultimately have "sublist ?m (?c @ [])"
    by (rule skip_right [OF _ nt _ marker_pairs(2) marker_ends(3)])
  with promptGlobalEnd_no_marker show False by simp
qed


lemma searchPrompt_contains_product: "sublist product (searchPrompt today product location)"
proof -
  have "searchPrompt today product location =
      (promptText1 @ today @ promptText2) @ product @
      (promptText3 @ today @ promptText4 @ locationInstruction location @ promptText5)"
    by (simp add: searchPrompt_def)
  then show ?thesis by (simp only: sublist_middle)
qed

lemma filterInstruction_marker:
  \<open>sublist (str ''CRITICAL INSTRUCTION'')
     (str ''CRITICAL INSTRUCTION: The user is ONLY interested in events taking place in or near "'' @ l @
      str ''". FILTER OUT ALL events that are not in this location.'')\<close>
proof -
  have \<open>str ''CRITICAL INSTRUCTION: The user is ONLY interested in events taking place in or near "'' =
      str ''CRITICAL INSTRUCTION'' @ str '': The user is ONLY interested in events taking place in or near "''\<close>
    by (simp add: str_def)
  then show ?thesis
    using sublist_middle [of "str ''CRITICAL INSTRUCTION''" "[]"]
    by (simp only: append_Nil append_assoc)
qed

lemma nonBlank_iff: "nonBlank location \<longleftrightarrow> (\<exists>l. location = Some l \<and> trim l \<noteq> [])"
  by (cases location) (auto simp: nonBlank_def trim_def)

text \<open>
  C8, as amended. For a product and a date that do not hold the words
  \<open>CRITICAL INSTRUCTION\<close> themselves: where the location is non-blank, the prompt contains the
  strict filter instruction with that location between its quotes; the prompt contains a
  filter instruction, for whatever location, exactly when the location is non-blank;
  and where the location is blank, the prompt contains \<open>Search for events globally.\<close> and
  does not contain the words \<open>CRITICAL INSTRUCTION\<close>.
\<close>

theorem searchPrompt_filter_iff_nonBlank:
  assumes "\<not> sublist (str ''CRITICAL INSTRUCTION'') today"
    and "\<not> sublist (str ''CRITICAL INSTRUCTION'') product"
  shows
    \<open>(nonBlank location \<longrightarrow>
        (\<exists>l. location = Some l \<and>
           sublist (str ''CRITICAL INSTRUCTION: The user is ONLY interested in events taking place in or near "'' @
             l @ str ''". FILTER OUT ALL events that are not in this location.'')
             (searchPrompt today product location))) \<and>
     ((\<exists>l. sublist (str ''CRITICAL INSTRUCTION: The user is ONLY interested in events taking place in or near "'' @
             l @ str ''". FILTER OUT ALL events that are not in this location.'')
           (searchPrompt today product location)) \<longleftrightarrow> nonBlank location) \<and>
     (\<not> nonBlank location \<longrightarrow>
        sublist (str ''Search for events globally.'') (searchPrompt today product location) \<and>
        \<not> sublist (str ''CRITICAL INSTRUCTION'') (searchPrompt today product location))\<close>
proof (cases "nonBlank location")
  case True
  then obtain l where l: "location = Some l" by (cases location) (auto simp: nonBlank_def)
  with True have "locationInstruction location = filterInstruction l"
    using locationInstruction_nonBlank [OF True] by simp
  with searchPrompt_contains_instruction [of location today product]
  have \<open>sublist (str ''CRITICAL INSTRUCTION: The user is ONLY interested in events taking place in or near "'' @
             l @ str ''". FILTER OUT ALL events that are not in this location.'')
      (searchPrompt today product location)\<close>
    by (simp add: filterInstruction_def)
  with True l show ?thesis by blast
next
  case False
  have g: "sublist (str ''Search for events globally.'') (searchPrompt today product location)"
    using searchPrompt_contains_instruction [of location today product]
      locationInstruction_blank [OF False]
    by (simp add: globalInstruction_def)
  have n: "\<not> sublist (str ''CRITICAL INSTRUCTION'') (searchPrompt today product location)"
    using False assms by (rule searchPrompt_blank_no_marker)
  have \<open>\<not> (\<exists>l. sublist (str ''CRITICAL INSTRUCTION: The user is ONLY interested in events taking place in or near "'' @
             l @ str ''". FILTER OUT ALL events that are not in this location.'')
      (searchPrompt today product location))\<close>
  proof
    assume \<open>\<exists>l. sublist (str ''CRITICAL INSTRUCTION: The user is ONLY interested in events taking place in or near "'' @
             l @ str ''". FILTER OUT ALL events that are not in this location.'')
      (searchPrompt today product location)\<close>
    then obtain l where \<open>sublist (str ''CRITICAL INSTRUCTION: The user is ONLY interested in events taking place in or near "'' @
             l @ str ''". FILTER OUT ALL events that are not in this location.'')
        (searchPrompt today product location)\<close> ..
    with filterInstruction_marker [of l]
    have "sublist (str ''CRITICAL INSTRUCTION'') (searchPrompt today product location)"
      by (rule sublist_order.order.trans)
    with n show False by simp
  qed
  with False g n show ?thesis by blast
qed

theorem searchPrompt_filter_iff_nonBlank_witness:
  \<open>\<not> sublist (str ''CRITICAL INSTRUCTION'') (str ''November 3, 2026'') \<and>
   \<not> sublist (str ''CRITICAL INSTRUCTION'') (str ''Leather Bags'') \<and>
   \<not> sublist (str ''CRITICAL INSTRUCTION'') (str ''Frozen Shrimp'') \<and>
   nonBlank (Some (str ''Dubai'')) \<and>
   sublist (str ''CRITICAL INSTRUCTION: The user is ONLY interested in events taking place in or near "'' @
       str ''Dubai'' @ str ''". FILTER OUT ALL events that are not in this location.'')
     (searchPrompt (str ''November 3, 2026'') (str ''Leather Bags'') (Some (str ''Dubai''))) \<and>
   \<not> nonBlank (Some []) \<and>
   sublist (str ''Search for events globally.'')
     (searchPrompt (str ''November 3, 2026'') (str ''Frozen Shrimp'') (Some [])) \<and>
   \<not> sublist (str ''CRITICAL INSTRUCTION'')
     (searchPrompt (str ''November 3, 2026'') (str ''Frozen Shrimp'') (Some []))\<close>
proof -
  have t: "\<not> sublist (str ''CRITICAL INSTRUCTION'') (str ''November 3, 2026'')"
    by (rule notI, drule sublist_str) (simp add: sublist_Cons_right)
  have p: "\<not> sublist (str ''CRITICAL INSTRUCTION'') (str ''Leather Bags'')"
    by (rule notI, drule sublist_str) (simp add: sublist_Cons_right)
  have q: "\<not> sublist (str ''CRITICAL INSTRUCTION'') (str ''Frozen Shrimp'')"
    by (rule notI, drule sublist_str) (simp add: sublist_Cons_right)
  have a: "nonBlank (Some (str ''Dubai''))" by code_simp
  have b: "\<not> nonBlank (Some [])" by (simp add: nonBlank_def)
  note t1 = searchPrompt_filter_iff_nonBlank [OF t p, of "Some (str ''Dubai'')"]
  note t2 = searchPrompt_filter_iff_nonBlank [OF t q, of "Some []"]
  from t1 a obtain l where l: "Some (str ''Dubai'') = Some l"
    and c': \<open>sublist (str ''CRITICAL INSTRUCTION: The user is ONLY interested in events taking place in or near "'' @
             l @ str ''". FILTER OUT ALL events that are not in this location.'')
     (searchPrompt (str ''November 3, 2026'') (str ''Leather Bags'') (Some (str ''Dubai'')))\<close>
    by blast
  from l have "l = str ''Dubai''" by simp
  with c' have c: \<open>sublist (str ''CRITICAL INSTRUCTION: The user is ONLY interested in events taking place in or near "'' @
       str ''Dubai'' @ str ''". FILTER OUT ALL events that are not in this location.'')
     (searchPrompt (str ''November 3, 2026'') (str ''Leather Bags'') (Some (str ''Dubai'')))\<close>
    by (simp only:)
  from t2 b have d: "sublist (str ''Search for events globally.'')
     (searchPrompt (str ''November 3, 2026'') (str ''Frozen Shrimp'') (Some []))"
    by blast
  from t2 b have e: "\<not> sublist (str ''CRITICAL INSTRUCTION'')
     (searchPrompt (str ''November 3, 2026'') (str ''Frozen Shrimp'') (Some []))"
    by blast
  from t p q a b c d e show ?thesis by blast
qed

text \<open>
  C8 as stated fails: the product is put into the prompt as it is. With an empty location
  and a product that is itself a filter instruction, the prompt contains that filter
  instruction.
\<close>

theorem searchPrompt_injection_counterexample:
  \<open>\<not> nonBlank (Some []) \<and>
   sublist (str ''CRITICAL INSTRUCTION: The user is ONLY interested in events taking place in or near "'' @
       str ''Dubai'' @ str ''". FILTER OUT ALL events that are not in this location.'')
     (searchPrompt (str ''November 3, 2026'')
        (str ''CRITICAL INSTRUCTION: The user is ONLY interested in events taking place in or near "'' @
       str ''Dubai'' @ str ''". FILTER OUT ALL events that are not in this location.'')
        (Some []))\<close>
proof
  show "\<not> nonBlank (Some [])" by (simp add: nonBlank_def)
next
  show \<open>sublist (str ''CRITICAL INSTRUCTION: The user is ONLY interested in events taking place in or near "'' @
       str ''Dubai'' @ str ''". FILTER OUT ALL events that are not in this location.'')
     (searchPrompt (str ''November 3, 2026'')
        (str ''CRITICAL INSTRUCTION: The user is ONLY interested in events taking place in or near "'' @
       str ''Dubai'' @ str ''". FILTER OUT ALL events that are not in this location.'')
        (Some []))\<close>
    by (rule searchPrompt_contains_product)
qed

text \<open>A location of white space only is blank.\<close>

lemma nonBlank_white_space: "\<not> nonBlank (Some (str ''  ''))"
  by code_simp

end
